theory Spec2Isabelle
  imports Main
begin

section \<open>Data model of the provisioning client\<close>

text \<open>
  The theory embeds \<^verbatim>\<open>provisioning/provisioning.go\<close>: the submission configuration,
  the decoder of the session resource, the poll loop and \<^verbatim>\<open>Run\<close>.
  The package \<^verbatim>\<open>common\<close> (the HTTP client wrapper, its constants and helpers) and Go's
  standard library are not part of the embedded file; what the code calls from them is
  collected in the record \<open>env\<close> below and stays a parameter of every definition.
\<close>

definition sessionMediaType :: string where
  "sessionMediaType = ''application/vnd.veraison.provisioning-session+json''"

text \<open>
  Modelled from the spec: the three status constants \<^verbatim>\<open>common.APIStatusSuccess\<close>,
  \<^verbatim>\<open>common.APIStatusFailed\<close> and \<^verbatim>\<open>common.APIStatusProcessing\<close> are declared in the
  package \<^verbatim>\<open>common\<close>; the spec (Session Record, status enum) and the bodies used by the
  tests give their values.
\<close>

definition APIStatusSuccess :: string where
  "APIStatusSuccess = ''success''"

definition APIStatusFailed :: string where
  "APIStatusFailed = ''failed''"

definition APIStatusProcessing :: string where
  "APIStatusProcessing = ''processing''"

text \<open>\<^verbatim>\<open>type SubmitSession struct\<close>; \<^verbatim>\<open>FailureReason\<close> is a \<^verbatim>\<open>*string\<close>.\<close>

record SubmitSession =
  Status :: string
  Expiry :: string
  FailureReason :: "string option"

text \<open>
  \<^verbatim>\<open>auth.IAuthenticator\<close> and \<^verbatim>\<open>http.Client\<close> are opaque to this file: both are handles.
  Of \<^verbatim>\<open>common.Client\<close> the code reads the two fields \<^verbatim>\<open>HTTPClient\<close> and \<^verbatim>\<open>Auth\<close>.
\<close>

type_synonym authenticator = string
type_synonym http_Client = string

record common_Client =
  HTTPClient :: http_Client
  client_Auth :: "authenticator option"

text \<open>\<^verbatim>\<open>type SubmitConfig struct\<close>; \<^verbatim>\<open>Client\<close> and \<^verbatim>\<open>Auth\<close> may be nil.\<close>

record SubmitConfig =
  CACerts :: "string list"
  Client :: "common_Client option"
  SubmitURI :: string
  Auth :: "authenticator option"
  DeleteSession :: bool
  UseTLS :: bool
  IsInsecure :: bool

text \<open>
  The fields of \<^verbatim>\<open>http.Response\<close> that the code reads; \<open>StatusText\<close> is its field
  \<^verbatim>\<open>Status\<close>, the status line. \<^verbatim>\<open>ContentLength\<close> is the declared length (\<open>-1\<close> when the
  length is unknown) and is a field of its own, next to the body. A header maps a
  canonical key to its list of values.
\<close>

record response =
  StatusCode :: int
  StatusText :: string
  ContentLength :: int
  Header :: "string \<rightharpoonup> string list"
  Body :: string

text \<open>\<^verbatim>\<open>Header.Get\<close>: the first value stored under the key, the empty string when there is none.\<close>

definition Header_Get :: "(string \<rightharpoonup> string list) \<Rightarrow> string \<Rightarrow> string" where
  "Header_Get h k = (case h k of None \<Rightarrow> '''' | Some [] \<Rightarrow> '''' | Some (v # _) \<Rightarrow> v)"

text \<open>Of a parsed \<^verbatim>\<open>url.URL\<close> the code reads the scheme only; \<^verbatim>\<open>IsAbs\<close> is a non-empty scheme.\<close>

record url =
  Scheme :: string

definition IsAbs :: "url \<Rightarrow> bool" where
  "IsAbs u = (Scheme u \<noteq> '''')"

text \<open>
  Errors. The Go code builds every error from a message; each constructor is one error
  site of the file and carries the arguments of its format string. An error of a callee
  outside the file is its message (a string).
\<close>

datatype error =
    MalformedURI string                   \<comment> \<open>\<^verbatim>\<open>malformed URI: %w\<close>\<close>
  | UriNotAbsolute                        \<comment> \<open>\<^verbatim>\<open>uri is not absolute\<close>\<close>
  | BadConfiguration                      \<comment> \<open>\<^verbatim>\<open>bad configuration: no API endpoint\<close>\<close>
  | ClientInitFailed string               \<comment> \<open>the error of \<^verbatim>\<open>common.NewTLSClient\<close>, passed on as it is\<close>
  | SubmitRequestFailed string            \<comment> \<open>\<^verbatim>\<open>submit request failed: %w\<close>\<close>
  | UnexpectedHTTPResponseCode int        \<comment> \<open>\<^verbatim>\<open>unexpected HTTP response code %d\<close>\<close>
  | SubmissionFailed string               \<comment> \<open>\<^verbatim>\<open>errors.New(s)\<close>, the constructor carries \<open>s\<close>\<close>
  | UnexpectedSessionState string int     \<comment> \<open>\<^verbatim>\<open>unexpected session state %q in 200 response\<close>, or 201\<close>
  | CannotDetermineSessionURI string      \<comment> \<open>\<^verbatim>\<open>cannot determine URI for the session resource: %w\<close>\<close>
  | SessionFetchFailed string             \<comment> \<open>\<^verbatim>\<open>session resource fetch failed: %w\<close>\<close>
  | SessionFetchUnexpectedStatus string   \<comment> \<open>\<^verbatim>\<open>session resource fetch returned an unexpected status: %s\<close>\<close>
  | PollingAttemptsExhausted              \<comment> \<open>\<^verbatim>\<open>polling attempts exhausted, session resource state still not complete\<close>\<close>
  | EmptyBody                             \<comment> \<open>\<^verbatim>\<open>empty body\<close>\<close>
  | UnexpectedContentType string          \<comment> \<open>\<^verbatim>\<open>session resource with unexpected content type: %q\<close>\<close>
  | FailureDecodingSession string         \<comment> \<open>\<^verbatim>\<open>failure decoding session resource: %w\<close>\<close>
  | NilPointerPanic                       \<comment> \<open>a method call through a nil \<^verbatim>\<open>Client\<close>\<close>

text \<open>
  What a call leaves behind in the world, in order: a client built by \<^verbatim>\<open>initClient\<close>, the
  requests sent, the pause between two polls, and the line written by \<^verbatim>\<open>log.Printf\<close>.
\<close>

datatype event =
    EvNewClient common_Client
  | EvPost common_Client string string string string  \<comment> \<open>client, URI, body, content type, accept\<close>
  | EvGet http_Client string
  | EvSleep
  | EvDelete common_Client string
  | EvLog string string                               \<comment> \<open>\<^verbatim>\<open>DELETE %s failed: %v\<close>\<close>

text \<open>
  The callees outside the file. The answer of the transport to a request may depend on
  everything that happened before it, so the three transport operations take the events
  so far. A transport operation yields an error message or a response;
  \<^verbatim>\<open>DeleteResource\<close> yields an error message or nothing.
\<close>

record env =
  MaxAttempts :: int
  url_Parse :: "string \<Rightarrow> string + url"
  NewClient :: "authenticator option \<Rightarrow> common_Client"
  NewInsecureTLSClient :: "authenticator option \<Rightarrow> common_Client"
  NewTLSClient :: "authenticator option \<Rightarrow> string list \<Rightarrow> string + common_Client"
  PostResource :: "event list \<Rightarrow> common_Client \<Rightarrow> string \<Rightarrow> string \<Rightarrow> string \<Rightarrow> string \<Rightarrow> string + response"
  Get :: "event list \<Rightarrow> http_Client \<Rightarrow> string \<Rightarrow> string + response"
  DeleteResource :: "event list \<Rightarrow> common_Client \<Rightarrow> string \<Rightarrow> string option"
  DecodeJSONBody :: "response \<Rightarrow> string + SubmitSession"
  ExtractLocation :: "response \<Rightarrow> string \<Rightarrow> string + string"

text \<open>A Go result \<^verbatim>\<open>(*SubmitSession, error)\<close>: either component may be nil.\<close>

type_synonym result = "SubmitSession option \<times> error option"

section \<open>The configuration\<close>

text \<open>\<^verbatim>\<open>func (cfg *SubmitConfig) SetSubmitURI(uri string) error\<close>: the configuration after the
  call and the error.\<close>

definition SetSubmitURI :: "env \<Rightarrow> SubmitConfig \<Rightarrow> string \<Rightarrow> SubmitConfig \<times> error option" where
  "SetSubmitURI env cfg uri =
     (case url_Parse env uri of
        Inl err \<Rightarrow> (cfg, Some (MalformedURI err))
      | Inr u \<Rightarrow>
          if \<not> IsAbs u then (cfg, Some UriNotAbsolute)
          else (cfg\<lparr>UseTLS := (Scheme u = ''https''), SubmitURI := uri\<rparr>, None))"

text \<open>\<^verbatim>\<open>func (cfg SubmitConfig) check() error\<close>\<close>

definition check :: "SubmitConfig \<Rightarrow> error option" where
  "check cfg = (if SubmitURI cfg = '''' then Some BadConfiguration else None)"

text \<open>\<^verbatim>\<open>func (cfg *SubmitConfig) initClient() error\<close>: the configuration after the call, the
  error and the events.\<close>

definition initClient :: "env \<Rightarrow> SubmitConfig \<Rightarrow> event list \<Rightarrow> SubmitConfig \<times> error option \<times> event list" where
  "initClient env cfg tr =
     (if Client cfg \<noteq> None then (cfg, None, tr)
      else if \<not> UseTLS cfg then
        (let c = NewClient env (Auth cfg) in (cfg\<lparr>Client := Some c\<rparr>, None, tr @ [EvNewClient c]))
      else if IsInsecure cfg then
        (let c = NewInsecureTLSClient env (Auth cfg) in (cfg\<lparr>Client := Some c\<rparr>, None, tr @ [EvNewClient c]))
      else
        (case NewTLSClient env (Auth cfg) (CACerts cfg) of
           Inl err \<Rightarrow> (cfg\<lparr>Client := None\<rparr>, Some (ClientInitFailed err), tr)
         | Inr c \<Rightarrow> (cfg\<lparr>Client := Some c\<rparr>, None, tr @ [EvNewClient c])))"

section \<open>The session resource decoder\<close>

text \<open>\<^verbatim>\<open>func sessionFromResponse(res *http.Response) (*SubmitSession, error)\<close>. Its returns are
  \<^verbatim>\<open>nil, err\<close> with an error and \<^verbatim>\<open>&j, nil\<close>, so the result is a sum.\<close>

definition sessionFromResponse :: "env \<Rightarrow> response \<Rightarrow> error + SubmitSession" where
  "sessionFromResponse env res =
     (if ContentLength res = 0 then Inl EmptyBody
      else
        (let ct = Header_Get (Header res) ''Content-Type'' in
         if ct \<noteq> sessionMediaType then Inl (UnexpectedContentType ct)
         else
           (case DecodeJSONBody env res of
              Inl err \<Rightarrow> Inl (FailureDecodingSession err)
            | Inr j \<Rightarrow> Inr j)))"

section \<open>The poll loop\<close>

text \<open>The message of a failed submission, built the same way in \<^verbatim>\<open>Run\<close> and in the poll
  loop: \<^verbatim>\<open>s := "submission failed"\<close>, then \<^verbatim>\<open>s += fmt.Sprintf(": %s", *j.FailureReason)\<close> when
  the reason is not nil.\<close>

definition failed_message :: "SubmitSession \<Rightarrow> string" where
  "failed_message j =
     ''submission failed'' @ (case FailureReason j of None \<Rightarrow> '''' | Some r \<Rightarrow> '': '' @ r)"

text \<open>One pass through the body of the \<^verbatim>\<open>for\<close> loop: it either returns from the function
  or falls through to the next iteration.\<close>

datatype iteration = Return result | Continue

definition poll_body :: "env \<Rightarrow> http_Client \<Rightarrow> string \<Rightarrow> event list \<Rightarrow> iteration \<times> event list" where
  "poll_body env client uri tr =
     (case Get env tr client uri of
        Inl err \<Rightarrow> (Return (None, Some (SessionFetchFailed err)), tr @ [EvGet client uri])
      | Inr res \<Rightarrow>
          if StatusCode res \<noteq> 200
          then (Return (None, Some (SessionFetchUnexpectedStatus (StatusText res))), tr @ [EvGet client uri])
          else
            (case sessionFromResponse env res of
               Inl err \<Rightarrow> (Return (None, Some err), tr @ [EvGet client uri])
             | Inr j \<Rightarrow>
                 if Status j = APIStatusSuccess
                 then (Return (Some j, None), tr @ [EvGet client uri])
                 else if Status j = APIStatusFailed
                 then (Return (None, Some (SubmissionFailed (failed_message j))), tr @ [EvGet client uri])
                 else if Status j = APIStatusProcessing
                 then (Continue, tr @ [EvGet client uri, EvSleep])
                 else (Return (None, Some (UnexpectedSessionState (Status j) 200)), tr @ [EvGet client uri])))"

text \<open>\<^verbatim>\<open>for attempt := 1; attempt < common.MaxAttempts; attempt++\<close>, and the return after
  the loop.\<close>

function poll_loop :: "env \<Rightarrow> http_Client \<Rightarrow> string \<Rightarrow> int \<Rightarrow> event list \<Rightarrow> result \<times> event list" where
  "poll_loop env client uri attempt tr =
     (if attempt < MaxAttempts env then
        (case poll_body env client uri tr of
           (Return r, tr') \<Rightarrow> (r, tr')
         | (Continue, tr') \<Rightarrow> poll_loop env client uri (attempt + 1) tr')
      else ((None, Some PollingAttemptsExhausted), tr))"
  by pat_completeness auto
termination
  by (relation "measure (\<lambda>(env, client, uri, attempt, tr). nat (MaxAttempts env - attempt))") auto

declare poll_loop.simps [simp del]

text \<open>\<^verbatim>\<open>func (cfg SubmitConfig) pollForSubmissionCompletion(uri string) (*SubmitSession, error)\<close>\<close>

definition pollForSubmissionCompletion :: "env \<Rightarrow> SubmitConfig \<Rightarrow> string \<Rightarrow> event list \<Rightarrow> result \<times> event list" where
  "pollForSubmissionCompletion env cfg uri tr =
     (case Client cfg of
        None \<Rightarrow> ((None, Some NilPointerPanic), tr)
      | Some c \<Rightarrow> poll_loop env (HTTPClient c) uri 1 tr)"

section \<open>Run\<close>

text \<open>\<^verbatim>\<open>func (cfg SubmitConfig) Run(endorsement []byte, mediaType string) (*SubmitSession, error)\<close>.
  The receiver is a value: \<open>cfg0\<close> is the caller's configuration and \<open>cfg\<close> the copy that
  \<^verbatim>\<open>initClient\<close> has worked on.\<close>

definition Run :: "env \<Rightarrow> SubmitConfig \<Rightarrow> string \<Rightarrow> string \<Rightarrow> event list \<Rightarrow> result \<times> event list" where
  "Run env cfg0 endorsement mediaType tr =
     (case check cfg0 of
        Some err \<Rightarrow> ((None, Some err), tr)
      | None \<Rightarrow>
          (case initClient env cfg0 tr of
             (cfg, Some err, tr1) \<Rightarrow> ((None, Some err), tr1)
           | (cfg, None, tr1) \<Rightarrow>
               (case Client cfg of
                  None \<Rightarrow> ((None, Some NilPointerPanic), tr1)
                | Some c \<Rightarrow>
                    (let tr2 = tr1 @ [EvPost c (SubmitURI cfg) endorsement mediaType sessionMediaType] in
                     case PostResource env tr1 c endorsement mediaType sessionMediaType (SubmitURI cfg) of
                       Inl err \<Rightarrow> ((None, Some (SubmitRequestFailed err)), tr2)
                     | Inr res \<Rightarrow>
                         if StatusCode res \<noteq> 200 \<and> StatusCode res \<noteq> 201
                         then ((None, Some (UnexpectedHTTPResponseCode (StatusCode res))), tr2)
                         else
                           (case sessionFromResponse env res of
                              Inl err \<Rightarrow> ((None, Some err), tr2)
                            | Inr j \<Rightarrow>
                                if StatusCode res = 200 then
                                  (if Status j = APIStatusSuccess then ((Some j, None), tr2)
                                   else if Status j = APIStatusFailed
                                   then ((None, Some (SubmissionFailed (failed_message j))), tr2)
                                   else ((None, Some (UnexpectedSessionState (Status j) 200)), tr2))
                                else if Status j \<noteq> APIStatusProcessing
                                then ((None, Some (UnexpectedSessionState (Status j) 201)), tr2)
                                else
                                  (case ExtractLocation env res (SubmitURI cfg) of
                                     Inl err \<Rightarrow> ((None, Some (CannotDetermineSessionURI err)), tr2)
                                   | Inr sessionURI \<Rightarrow>
                                       (case pollForSubmissionCompletion env cfg sessionURI tr2 of
                                          (r, tr3) \<Rightarrow>
                                            (r,
                                             if DeleteSession cfg then
                                               (case DeleteResource env tr3 c sessionURI of
                                                  Some delErr \<Rightarrow> tr3 @ [EvDelete c sessionURI, EvLog sessionURI delErr]
                                                | None \<Rightarrow> tr3 @ [EvDelete c sessionURI])
                                             else tr3))))))))"

section \<open>Observations on the events\<close>

fun is_post :: "event \<Rightarrow> bool" where
  "is_post (EvPost _ _ _ _ _) = True"
| "is_post _ = False"

fun is_get :: "event \<Rightarrow> bool" where
  "is_get (EvGet _ _) = True"
| "is_get _ = False"

fun is_delete :: "event \<Rightarrow> bool" where
  "is_delete (EvDelete _ _) = True"
| "is_delete _ = False"

text \<open>The number of POST, GET and DELETE requests among the events.\<close>

definition posts :: "event list \<Rightarrow> nat" where
  "posts tr = length (filter is_post tr)"

definition gets :: "event list \<Rightarrow> nat" where
  "gets tr = length (filter is_get tr)"

definition deletes :: "event list \<Rightarrow> nat" where
  "deletes tr = length (filter is_delete tr)"

text \<open>An event that is a request goes through the client \<open>c\<close>: a POST or a DELETE through
  the client itself, a GET through its \<^verbatim>\<open>HTTPClient\<close>.\<close>

fun via :: "common_Client \<Rightarrow> event \<Rightarrow> bool" where
  "via c (EvPost c' _ _ _ _) = (c' = c)"
| "via c (EvGet h _) = (h = HTTPClient c)"
| "via c (EvDelete c' _) = (c' = c)"
| "via c _ = True"

text \<open>The events of \<open>n\<close> polls that all found the session still processing.\<close>

definition polls :: "http_Client \<Rightarrow> string \<Rightarrow> nat \<Rightarrow> event list" where
  "polls client uri n = concat (replicate n [EvGet client uri, EvSleep])"

text \<open>The session record carried by the answer to a poll: the answer is a response with
  status code 200 whose body the decoder accepts.\<close>

definition polled_record :: "env \<Rightarrow> string + response \<Rightarrow> SubmitSession option" where
  "polled_record env g =
     (case g of
        Inl _ \<Rightarrow> None
      | Inr res \<Rightarrow>
          if StatusCode res \<noteq> 200 then None
          else (case sessionFromResponse env res of Inl _ \<Rightarrow> None | Inr j \<Rightarrow> Some j))"

definition polled_status :: "env \<Rightarrow> string + response \<Rightarrow> string option" where
  "polled_status env g = map_option Status (polled_record env g)"

section \<open>The receiver of Run\<close>

text \<open>
  \<^verbatim>\<open>Run\<close> has a value receiver and \<^verbatim>\<open>initClient\<close> a pointer receiver. A call
  \<^verbatim>\<open>tv.Run(endorsement, mediaType)\<close> therefore involves two variables that hold a
  configuration: the caller's \<^verbatim>\<open>tv\<close>, and the receiver \<^verbatim>\<open>cfg\<close> of \<^verbatim>\<open>Run\<close>, which the call
  initialises with a copy of \<^verbatim>\<open>tv\<close>. A store gives the value of each.
\<close>

datatype var = CallerVar | ReceiverVar

type_synonym store = "var \<Rightarrow> SubmitConfig"

text \<open>\<^verbatim>\<open>initClient\<close> through a pointer to the variable \<open>p\<close>: what it assigns to \<^verbatim>\<open>cfg.Client\<close> is
  written to that variable.\<close>

definition initClient_at :: "env \<Rightarrow> var \<Rightarrow> store \<Rightarrow> event list \<Rightarrow> store \<times> error option \<times> event list" where
  "initClient_at env p st tr =
     (case initClient env (st p) tr of
        (cfg, err, tr1) \<Rightarrow> (st(p := cfg), err, tr1))"

text \<open>The call \<^verbatim>\<open>tv.Run(endorsement, mediaType)\<close> on a store: the receiver is assigned the
  value of the caller's variable, then the body of \<^verbatim>\<open>Run\<close> runs on the receiver, with
  \<^verbatim>\<open>cfg.initClient()\<close> taking its address. The store after the call is returned with the
  result and the events.\<close>

definition Run_in_store :: "env \<Rightarrow> string \<Rightarrow> string \<Rightarrow> store \<Rightarrow> event list \<Rightarrow> result \<times> store \<times> event list" where
  "Run_in_store env endorsement mediaType st0 tr =
     (let st = st0(ReceiverVar := st0 CallerVar) in
      case check (st ReceiverVar) of
        Some err \<Rightarrow> ((None, Some err), st, tr)
      | None \<Rightarrow>
          (case initClient_at env ReceiverVar st tr of
             (st1, Some err, tr1) \<Rightarrow> ((None, Some err), st1, tr1)
           | (st1, None, tr1) \<Rightarrow>
               (case Client (st1 ReceiverVar) of
                  None \<Rightarrow> ((None, Some NilPointerPanic), st1, tr1)
                | Some c \<Rightarrow>
                    (let tr2 = tr1 @ [EvPost c (SubmitURI (st1 ReceiverVar)) endorsement mediaType sessionMediaType] in
                     case PostResource env tr1 c endorsement mediaType sessionMediaType
                            (SubmitURI (st1 ReceiverVar)) of
                       Inl err \<Rightarrow> ((None, Some (SubmitRequestFailed err)), st1, tr2)
                     | Inr res \<Rightarrow>
                         if StatusCode res \<noteq> 200 \<and> StatusCode res \<noteq> 201
                         then ((None, Some (UnexpectedHTTPResponseCode (StatusCode res))), st1, tr2)
                         else
                           (case sessionFromResponse env res of
                              Inl err \<Rightarrow> ((None, Some err), st1, tr2)
                            | Inr j \<Rightarrow>
                                if StatusCode res = 200 then
                                  (if Status j = APIStatusSuccess then ((Some j, None), st1, tr2)
                                   else if Status j = APIStatusFailed
                                   then ((None, Some (SubmissionFailed (failed_message j))), st1, tr2)
                                   else ((None, Some (UnexpectedSessionState (Status j) 200)), st1, tr2))
                                else if Status j \<noteq> APIStatusProcessing
                                then ((None, Some (UnexpectedSessionState (Status j) 201)), st1, tr2)
                                else
                                  (case ExtractLocation env res (SubmitURI (st1 ReceiverVar)) of
                                     Inl err \<Rightarrow> ((None, Some (CannotDetermineSessionURI err)), st1, tr2)
                                   | Inr sessionURI \<Rightarrow>
                                       (case pollForSubmissionCompletion env (st1 ReceiverVar) sessionURI tr2 of
                                          (r, tr3) \<Rightarrow>
                                            (r, st1,
                                             if DeleteSession (st1 ReceiverVar) then
                                               (case DeleteResource env tr3 c sessionURI of
                                                  Some delErr \<Rightarrow> tr3 @ [EvDelete c sessionURI, EvLog sessionURI delErr]
                                                | None \<Rightarrow> tr3 @ [EvDelete c sessionURI])
                                             else tr3))))))))"

section \<open>A concrete environment\<close>

text \<open>The values of \<^verbatim>\<open>provisioning_test.go\<close> and a scripted server in the manner of its
  handlers: one answer to the POST, a list of answers to the successive GETs, one outcome
  of the DELETE.\<close>

definition testEndorsement :: string where
  "testEndorsement = ''test corim''"

definition testEndorsementMediaType :: string where
  "testEndorsementMediaType = ''application/corim+cbor''"

definition testSubmitURI :: string where
  "testSubmitURI = ''http://veraison.example/endorsement-provisioning/v1/submit''"

definition testSessionURI :: string where
  "testSessionURI = ''http://veraison.example/endorsement-provisioning/v1/session/1234''"

definition testClient :: common_Client where
  "testClient = \<lparr>HTTPClient = ''testing'', client_Auth = None\<rparr>"

definition sample_url_Parse :: "string \<Rightarrow> string + url" where
  "sample_url_Parse uri =
     (if uri = ''http://veraison.example/endorsement-provisioning/v1/submit'' then Inr \<lparr>Scheme = ''http''\<rparr>
      else if uri = ''https://veraison.example/endorsement-provisioning/v1/submit'' then Inr \<lparr>Scheme = ''https''\<rparr>
      else if uri = ''veraison.example/endorsement-provisioning/v1/submit'' then Inr \<lparr>Scheme = ''''\<rparr>
      else Inl ''missing protocol scheme'')"

definition sample_sessions :: "(string \<times> SubmitSession) list" where
  "sample_sessions =
     [(''{status: success}'',
         \<lparr>Status = ''success'', Expiry = ''2030-10-12T07:20:50.52Z'', FailureReason = None\<rparr>),
      (''{status: processing}'',
         \<lparr>Status = ''processing'', Expiry = ''2030-10-12T07:20:50.52Z'', FailureReason = None\<rparr>),
      (''{status: failed, failure-reason: taking too long}'',
         \<lparr>Status = ''failed'', Expiry = ''2030-10-12T07:20:50.52Z'', FailureReason = Some ''taking too long''\<rparr>),
      (''{status: whatever}'',
         \<lparr>Status = ''whatever'', Expiry = ''2030-10-12T07:20:50.52Z'', FailureReason = None\<rparr>)]"

definition sample_DecodeJSONBody :: "response \<Rightarrow> string + SubmitSession" where
  "sample_DecodeJSONBody res =
     (case map_of sample_sessions (Body res) of
        None \<Rightarrow> Inl ''invalid character''
      | Some j \<Rightarrow> Inr j)"

definition sample_ExtractLocation :: "response \<Rightarrow> string \<Rightarrow> string + string" where
  "sample_ExtractLocation res base =
     (case Header res ''Location'' of
        Some (l # _) \<Rightarrow> Inr l
      | _ \<Rightarrow> Inl ''no Location header found in response'')"

text \<open>A response of the given status code and body, declared as a session resource.\<close>

definition session_response :: "int \<Rightarrow> string \<Rightarrow> response" where
  "session_response code body =
     \<lparr>StatusCode = code, StatusText = (if code = 200 then ''200 OK'' else ''404 Not Found''),
      ContentLength = int (length body),
      Header = [''Content-Type'' \<mapsto> [sessionMediaType]],
      Body = body\<rparr>"

text \<open>The 201 answer to the POST, with and without the \<^verbatim>\<open>Location\<close> header.\<close>

definition created_response :: response where
  "created_response =
     \<lparr>StatusCode = 201, StatusText = ''201 Created'', ContentLength = 20,
      Header = [''Content-Type'' \<mapsto> [sessionMediaType], ''Location'' \<mapsto> [testSessionURI]],
      Body = ''{status: processing}''\<rparr>"

definition created_no_location :: response where
  "created_no_location =
     \<lparr>StatusCode = 201, StatusText = ''201 Created'', ContentLength = 20,
      Header = [''Content-Type'' \<mapsto> [sessionMediaType]],
      Body = ''{status: processing}''\<rparr>"

text \<open>Two responses sent in chunks that carry no data: the length is not declared. The
  first declares a foreign content type, the second the session media type.\<close>

definition chunked_empty_response :: response where
  "chunked_empty_response =
     \<lparr>StatusCode = 200, StatusText = ''200 OK'', ContentLength = - 1,
      Header = [''Content-Type'' \<mapsto> [''text/plain'']],
      Body = ''''\<rparr>"

definition chunked_empty_session :: response where
  "chunked_empty_session =
     \<lparr>StatusCode = 200, StatusText = ''200 OK'', ContentLength = - 1,
      Header = [''Content-Type'' \<mapsto> [sessionMediaType]],
      Body = ''''\<rparr>"

definition sample_env :: "int \<Rightarrow> string + response \<Rightarrow> (string + response) list \<Rightarrow> string option \<Rightarrow> env" where
  "sample_env n post answers del =
     \<lparr>MaxAttempts = n,
      url_Parse = sample_url_Parse,
      NewClient = (\<lambda>a. \<lparr>HTTPClient = ''plain'', client_Auth = a\<rparr>),
      NewInsecureTLSClient = (\<lambda>a. \<lparr>HTTPClient = ''insecure TLS'', client_Auth = a\<rparr>),
      NewTLSClient = (\<lambda>a certs. if certs = [] then Inr \<lparr>HTTPClient = ''TLS'', client_Auth = a\<rparr>
                                  else Inl ''cannot load CA certificates''),
      PostResource = (\<lambda>tr c body ct accept uri. post),
      Get = (\<lambda>tr client uri. if gets tr < length answers then answers ! gets tr
                               else Inl ''connection refused''),
      DeleteResource = (\<lambda>tr c uri. del),
      DecodeJSONBody = sample_DecodeJSONBody,
      ExtractLocation = sample_ExtractLocation\<rparr>"

definition sample_cfg :: SubmitConfig where
  "sample_cfg =
     \<lparr>CACerts = [], Client = Some testClient, SubmitURI = testSubmitURI, Auth = None,
      DeleteSession = True, UseTLS = False, IsInsecure = False\<rparr>"

text \<open>The zero value \<^verbatim>\<open>SubmitConfig{}\<close>.\<close>

definition zero_cfg :: SubmitConfig where
  "zero_cfg =
     \<lparr>CACerts = [], Client = None, SubmitURI = '''', Auth = None,
      DeleteSession = False, UseTLS = False, IsInsecure = False\<rparr>"


text \<open>Two answers to a poll: the session is still processing, the session has succeeded.\<close>

definition still_processing :: "string + response" where
  "still_processing = Inr (session_response 200 ''{status: processing}'')"

definition now_success :: "string + response" where
  "now_success = Inr (session_response 200 ''{status: success}'')"

text \<open>A store in which the caller's configuration names the endpoint, asks for the
  clean-up and has no client; the client that \<^verbatim>\<open>NewClient\<close> of the concrete environment
  builds for it.\<close>

definition sample_store :: store where
  "sample_store = (\<lambda>v. zero_cfg\<lparr>SubmitURI := testSubmitURI, DeleteSession := True\<rparr>)"

definition plainClient :: common_Client where
  "plainClient = \<lparr>HTTPClient = ''plain'', client_Auth = None\<rparr>"

section \<open>Facts used throughout\<close>

lemmas status_defs = APIStatusSuccess_def APIStatusFailed_def APIStatusProcessing_def

lemma initClient_Client:
  "initClient env cfg0 tr = (cfg, None, tr1) \<Longrightarrow> \<exists>c. Client cfg = Some c"
  by (auto simp: initClient_def Let_def split: if_splits sum.splits)

text \<open>\<^verbatim>\<open>Run\<close> from the answer to the POST on, once the configuration is valid, a client is
  there and the body of the answer decodes.\<close>

lemma Run_after_post:
  assumes "check cfg0 = None" "initClient env cfg0 tr = (cfg, None, tr1)" "Client cfg = Some c"
    "PostResource env tr1 c endorsement mediaType sessionMediaType (SubmitURI cfg) = Inr res"
    "sessionFromResponse env res = Inr j"
  shows "Run env cfg0 endorsement mediaType tr =
     (if StatusCode res \<noteq> 200 \<and> StatusCode res \<noteq> 201
      then ((None, Some (UnexpectedHTTPResponseCode (StatusCode res))),
            tr1 @ [EvPost c (SubmitURI cfg) endorsement mediaType sessionMediaType])
      else if StatusCode res = 200 then
        (if Status j = APIStatusSuccess
         then ((Some j, None), tr1 @ [EvPost c (SubmitURI cfg) endorsement mediaType sessionMediaType])
         else if Status j = APIStatusFailed
         then ((None, Some (SubmissionFailed (failed_message j))),
               tr1 @ [EvPost c (SubmitURI cfg) endorsement mediaType sessionMediaType])
         else ((None, Some (UnexpectedSessionState (Status j) 200)),
               tr1 @ [EvPost c (SubmitURI cfg) endorsement mediaType sessionMediaType]))
      else if Status j \<noteq> APIStatusProcessing
      then ((None, Some (UnexpectedSessionState (Status j) 201)),
            tr1 @ [EvPost c (SubmitURI cfg) endorsement mediaType sessionMediaType])
      else
        (case ExtractLocation env res (SubmitURI cfg) of
           Inl err \<Rightarrow> ((None, Some (CannotDetermineSessionURI err)),
                        tr1 @ [EvPost c (SubmitURI cfg) endorsement mediaType sessionMediaType])
         | Inr sessionURI \<Rightarrow>
             (case pollForSubmissionCompletion env cfg sessionURI
                     (tr1 @ [EvPost c (SubmitURI cfg) endorsement mediaType sessionMediaType]) of
                (r, tr3) \<Rightarrow>
                  (r,
                   if DeleteSession cfg then
                     (case DeleteResource env tr3 c sessionURI of
                        Some delErr \<Rightarrow> tr3 @ [EvDelete c sessionURI, EvLog sessionURI delErr]
                      | None \<Rightarrow> tr3 @ [EvDelete c sessionURI])
                   else tr3))))"
  using assms by (simp add: Run_def Let_def)

section \<open>The submit URI\<close>

text \<open>
  C7. \<^verbatim>\<open>SetSubmitURI\<close> on any string: when \<^verbatim>\<open>url.Parse\<close> rejects the string, or accepts it
  with a URI that is not absolute, the call returns an error and the configuration is the
  one before the call (so the TLS flag and the stored URI are unchanged); when the URI is
  absolute, the call returns no error, stores the string, and sets the TLS flag to true
  exactly when the scheme is \<^verbatim>\<open>https\<close>.
\<close>

theorem SetSubmitURI_spec:
  "(\<forall>err. url_Parse env uri = Inl err \<longrightarrow>
       SetSubmitURI env cfg uri = (cfg, Some (MalformedURI err))) \<and>
   (\<forall>u. url_Parse env uri = Inr u \<and> \<not> IsAbs u \<longrightarrow>
       SetSubmitURI env cfg uri = (cfg, Some UriNotAbsolute)) \<and>
   (\<forall>u. url_Parse env uri = Inr u \<and> IsAbs u \<longrightarrow>
       SetSubmitURI env cfg uri =
         (cfg\<lparr>UseTLS := (Scheme u = ''https''), SubmitURI := uri\<rparr>, None))"
  by (simp add: SetSubmitURI_def)

theorem SetSubmitURI_spec_witness:
  "SetSubmitURI (sample_env 2 (Inl ''no such host'') [] None) sample_cfg
       ''https://veraison.example/endorsement-provisioning/v1/submit'' =
     (sample_cfg\<lparr>UseTLS := True,
        SubmitURI := ''https://veraison.example/endorsement-provisioning/v1/submit''\<rparr>, None) \<and>
   SetSubmitURI (sample_env 2 (Inl ''no such host'') [] None) (sample_cfg\<lparr>UseTLS := True\<rparr>)
       ''http://veraison.example/endorsement-provisioning/v1/submit'' =
     (sample_cfg\<lparr>UseTLS := False,
        SubmitURI := ''http://veraison.example/endorsement-provisioning/v1/submit''\<rparr>, None) \<and>
   SetSubmitURI (sample_env 2 (Inl ''no such host'') [] None) (sample_cfg\<lparr>UseTLS := True\<rparr>)
       ''veraison.example/endorsement-provisioning/v1/submit'' =
     (sample_cfg\<lparr>UseTLS := True\<rparr>, Some UriNotAbsolute) \<and>
   SetSubmitURI (sample_env 2 (Inl ''no such host'') [] None) (sample_cfg\<lparr>UseTLS := True\<rparr>) ''://'' =
     (sample_cfg\<lparr>UseTLS := True\<rparr>, Some (MalformedURI ''missing protocol scheme''))"
  using SetSubmitURI_spec [of "sample_env 2 (Inl ''no such host'') [] None"
          "''https://veraison.example/endorsement-provisioning/v1/submit''" sample_cfg]
        SetSubmitURI_spec [of "sample_env 2 (Inl ''no such host'') [] None"
          "''http://veraison.example/endorsement-provisioning/v1/submit''" "sample_cfg\<lparr>UseTLS := True\<rparr>"]
        SetSubmitURI_spec [of "sample_env 2 (Inl ''no such host'') [] None"
          "''veraison.example/endorsement-provisioning/v1/submit''" "sample_cfg\<lparr>UseTLS := True\<rparr>"]
        SetSubmitURI_spec [of "sample_env 2 (Inl ''no such host'') [] None"
          "''://''" "sample_cfg\<lparr>UseTLS := True\<rparr>"]
  by (simp add: sample_env_def sample_url_Parse_def IsAbs_def)

section \<open>Validation before any network activity\<close>

text \<open>
  C8. With an empty submit URI, \<^verbatim>\<open>Run\<close> returns a nil record and the error of \<^verbatim>\<open>check\<close>, and
  the events are those before the call: no client has been built and no request has been
  sent.
\<close>

theorem Run_empty_uri:
  "SubmitURI cfg = '''' \<Longrightarrow>
     Run env cfg endorsement mediaType tr = ((None, Some BadConfiguration), tr)"
  by (simp add: Run_def check_def)

theorem Run_empty_uri_witness:
  "SubmitURI zero_cfg = '''' \<and>
   Run (sample_env 2 (Inl ''no such host'') [] None) zero_cfg testEndorsement testEndorsementMediaType [] =
     ((None, Some BadConfiguration), [])"
proof -
  have h: "SubmitURI zero_cfg = ''''" by (simp add: zero_cfg_def)
  show ?thesis using h Run_empty_uri [OF h] by simp
qed

section \<open>The decoder\<close>

text \<open>The tests of \<^verbatim>\<open>sessionFromResponse\<close> in their order: the declared length, the content
  type, the JSON decoder.\<close>

lemma sessionFromResponse_cascade:
  "(ContentLength res = 0 \<longrightarrow> sessionFromResponse env res = Inl EmptyBody) \<and>
   (ContentLength res \<noteq> 0 \<and> Header_Get (Header res) ''Content-Type'' \<noteq> sessionMediaType \<longrightarrow>
      sessionFromResponse env res =
        Inl (UnexpectedContentType (Header_Get (Header res) ''Content-Type''))) \<and>
   (ContentLength res \<noteq> 0 \<and> Header_Get (Header res) ''Content-Type'' = sessionMediaType \<longrightarrow>
      (\<forall>err. DecodeJSONBody env res = Inl err \<longrightarrow>
          sessionFromResponse env res = Inl (FailureDecodingSession err)) \<and>
      (\<forall>j. DecodeJSONBody env res = Inr j \<longrightarrow> sessionFromResponse env res = Inr j))"
  by (simp add: sessionFromResponse_def)

text \<open>
  C3. The claim asks for the error \<^verbatim>\<open>empty body\<close> on every response whose body is empty,
  whatever its status code and content type. The decoder looks for an empty body with
  \<^verbatim>\<open>res.ContentLength == 0\<close>, the declared length. A response whose body is empty and whose
  length is not declared (\<^verbatim>\<open>ContentLength\<close> is \<open>-1\<close>, as for a chunked response) passes that
  test. In every environment, with a foreign content type the decoder then returns the
  error of the content type, and with the session media type it hands the empty body to
  the JSON decoder and returns what that makes of it; the error is \<^verbatim>\<open>empty body\<close> in
  neither case.
\<close>

theorem sessionFromResponse_undeclared_empty_body:
  "Body chunked_empty_response = '''' \<and>
   sessionFromResponse env chunked_empty_response = Inl (UnexpectedContentType ''text/plain'') \<and>
   Body chunked_empty_session = '''' \<and>
   sessionFromResponse env chunked_empty_session =
     (case DecodeJSONBody env chunked_empty_session of
        Inl err \<Rightarrow> Inl (FailureDecodingSession err)
      | Inr j \<Rightarrow> Inr j) \<and>
   sessionFromResponse env chunked_empty_session \<noteq> Inl EmptyBody"
  by (simp add: sessionFromResponse_def chunked_empty_response_def chunked_empty_session_def
        Header_Get_def sessionMediaType_def split: sum.split)

section \<open>The synchronous answer\<close>

text \<open>
  C2. When the POST is answered with status code 200 and the body decodes to a session
  record, \<^verbatim>\<open>Run\<close> goes one of three ways on the status of the record: \<^verbatim>\<open>success\<close> returns the
  record and no error; \<^verbatim>\<open>failed\<close> returns no record and the submission error, whose message
  is \<^verbatim>\<open>submission failed\<close> followed by a colon and the failure reason when there is one;
  any other status returns no record and the error naming that status.
\<close>

theorem Run_sync_200:
  assumes "check cfg0 = None"
    and "initClient env cfg0 tr = (cfg, None, tr1)"
    and "Client cfg = Some c"
    and "PostResource env tr1 c endorsement mediaType sessionMediaType (SubmitURI cfg) = Inr res"
    and "StatusCode res = 200"
    and "sessionFromResponse env res = Inr j"
  shows "fst (Run env cfg0 endorsement mediaType tr) =
     (if Status j = ''success'' then (Some j, None)
      else if Status j = ''failed'' then
        (None, Some (SubmissionFailed
           (case FailureReason j of
              None \<Rightarrow> ''submission failed''
            | Some reason \<Rightarrow> ''submission failed: '' @ reason)))
      else (None, Some (UnexpectedSessionState (Status j) 200)))"
  using assms(5) Run_after_post [OF assms(1-4) assms(6)]
  by (simp add: status_defs failed_message_def split: option.splits)

theorem Run_sync_200_witness:
  "fst (Run (sample_env 2 (Inr (session_response 200 ''{status: failed, failure-reason: taking too long}'')) [] None)
          sample_cfg testEndorsement testEndorsementMediaType []) =
     (None, Some (SubmissionFailed ''submission failed: taking too long''))"
proof -
  let ?res = "session_response 200 ''{status: failed, failure-reason: taking too long}''"
  let ?env = "sample_env 2 (Inr ?res) [] None"
  let ?j = "\<lparr>Status = ''failed'', Expiry = ''2030-10-12T07:20:50.52Z'',
             FailureReason = Some ''taking too long''\<rparr>"
  have h1: "check sample_cfg = None"
    by (simp add: check_def sample_cfg_def testSubmitURI_def)
  have h2: "initClient ?env sample_cfg [] = (sample_cfg, None, [])"
    by (simp add: initClient_def sample_cfg_def)
  have h3: "Client sample_cfg = Some testClient"
    by (simp add: sample_cfg_def)
  have h4: "PostResource ?env [] testClient testEndorsement testEndorsementMediaType sessionMediaType
              (SubmitURI sample_cfg) = Inr ?res"
    by (simp add: sample_env_def)
  have h5: "StatusCode ?res = 200"
    by (simp add: session_response_def)
  have h6: "sessionFromResponse ?env ?res = Inr ?j"
    by (simp add: sessionFromResponse_def sample_env_def session_response_def Header_Get_def
          sample_DecodeJSONBody_def sample_sessions_def)
  show ?thesis
    using Run_sync_200 [OF h1 h2 h3 h4 h5 h6] by simp
qed


section \<open>The poll loop, step by step\<close>

lemma poll_loop_step:
  "attempt < MaxAttempts env \<Longrightarrow>
     poll_loop env client uri attempt tr =
       (case poll_body env client uri tr of
          (Return r, tr') \<Rightarrow> (r, tr')
        | (Continue, tr') \<Rightarrow> poll_loop env client uri (attempt + 1) tr')"
  by (subst poll_loop.simps) simp

lemma poll_loop_exhausted:
  "\<not> attempt < MaxAttempts env \<Longrightarrow>
     poll_loop env client uri attempt tr = ((None, Some PollingAttemptsExhausted), tr)"
  by (subst poll_loop.simps) simp

lemma poll_body_processing:
  "polled_status env (Get env tr client uri) = Some APIStatusProcessing \<Longrightarrow>
     poll_body env client uri tr = (Continue, tr @ [EvGet client uri, EvSleep])"
  by (auto simp: polled_status_def polled_record_def poll_body_def status_defs
        split: sum.splits if_splits)

lemma poll_body_not_processing:
  "polled_status env (Get env tr client uri) \<noteq> Some APIStatusProcessing \<Longrightarrow>
     \<exists>r. poll_body env client uri tr = (Return r, tr @ [EvGet client uri])"
  by (auto simp: polled_status_def polled_record_def poll_body_def status_defs
        split: sum.splits if_splits)

lemma poll_body_success:
  "polled_record env (Get env tr client uri) = Some j \<Longrightarrow> Status j = APIStatusSuccess \<Longrightarrow>
     poll_body env client uri tr = (Return (Some j, None), tr @ [EvGet client uri])"
  by (auto simp: polled_record_def poll_body_def split: sum.splits if_splits)

lemma poll_body_cases:
  "poll_body env client uri tr = (Continue, tr @ [EvGet client uri, EvSleep]) \<or>
   (\<exists>r. poll_body env client uri tr = (Return r, tr @ [EvGet client uri]))"
  using poll_body_processing [of env tr client uri] poll_body_not_processing [of env tr client uri]
  by blast

lemma poll_body_result:
  "poll_body env client uri tr = (Return r, tr') \<Longrightarrow>
     (\<exists>e. r = (None, Some e)) \<or> (\<exists>j. r = (Some j, None) \<and> Status j = APIStatusSuccess)"
  by (auto simp: poll_body_def split: sum.splits if_splits)

lemma posts_append: "posts (xs @ ys) = posts xs + posts ys"
  by (simp add: posts_def)

lemma deletes_append: "deletes (xs @ ys) = deletes xs + deletes ys"
  by (simp add: deletes_def)

lemma poll_loop_gets:
  "gets (snd (poll_loop env client uri attempt tr)) \<le> gets tr + nat (MaxAttempts env - attempt)"
proof (induction env client uri attempt tr rule: poll_loop.induct)
  case (1 env client uri attempt tr)
  show ?case
  proof (cases "attempt < MaxAttempts env")
    case False
    then show ?thesis by (simp add: poll_loop_exhausted)
  next
    case True
    from poll_body_cases [of env client uri tr] show ?thesis
    proof
      assume c: "poll_body env client uri tr = (Continue, tr @ [EvGet client uri, EvSleep])"
      from "1.IH" [OF True c [symmetric] refl]
      have "gets (snd (poll_loop env client uri (attempt + 1) (tr @ [EvGet client uri, EvSleep])))
              \<le> gets (tr @ [EvGet client uri, EvSleep]) + nat (MaxAttempts env - (attempt + 1))"
        by simp
      with True c show ?thesis
        by (simp add: poll_loop_step gets_def)
    next
      assume "\<exists>r. poll_body env client uri tr = (Return r, tr @ [EvGet client uri])"
      then obtain r where "poll_body env client uri tr = (Return r, tr @ [EvGet client uri])" ..
      with True show ?thesis
        by (simp add: poll_loop_step gets_def)
    qed
  qed
qed

lemma poll_loop_trace:
  "\<exists>ext. snd (poll_loop env client uri attempt tr) = tr @ ext \<and>
         set ext \<subseteq> {EvGet client uri, EvSleep}"
proof (induction env client uri attempt tr rule: poll_loop.induct)
  case (1 env client uri attempt tr)
  show ?case
  proof (cases "attempt < MaxAttempts env")
    case False
    then show ?thesis by (simp add: poll_loop_exhausted)
  next
    case True
    from poll_body_cases [of env client uri tr] show ?thesis
    proof
      assume c: "poll_body env client uri tr = (Continue, tr @ [EvGet client uri, EvSleep])"
      from "1.IH" [OF True c [symmetric] refl]
      obtain ext where
        "snd (poll_loop env client uri (attempt + 1) (tr @ [EvGet client uri, EvSleep])) =
           (tr @ [EvGet client uri, EvSleep]) @ ext"
        and "set ext \<subseteq> {EvGet client uri, EvSleep}"
        by blast
      then have "snd (poll_loop env client uri attempt tr) = tr @ ([EvGet client uri, EvSleep] @ ext) \<and>
                 set ([EvGet client uri, EvSleep] @ ext) \<subseteq> {EvGet client uri, EvSleep}"
        using True c by (simp add: poll_loop_step)
      then show ?thesis by blast
    next
      assume "\<exists>r. poll_body env client uri tr = (Return r, tr @ [EvGet client uri])"
      then obtain r where "poll_body env client uri tr = (Return r, tr @ [EvGet client uri])" ..
      with True have "snd (poll_loop env client uri attempt tr) = tr @ [EvGet client uri] \<and>
                 set [EvGet client uri] \<subseteq> {EvGet client uri, EvSleep}"
        by (simp add: poll_loop_step)
      then show ?thesis by blast
    qed
  qed
qed

lemma poll_loop_result:
  "(\<exists>e. fst (poll_loop env client uri attempt tr) = (None, Some e)) \<or>
   (\<exists>j. fst (poll_loop env client uri attempt tr) = (Some j, None) \<and> Status j = APIStatusSuccess)"
proof (induction env client uri attempt tr rule: poll_loop.induct)
  case (1 env client uri attempt tr)
  show ?case
  proof (cases "attempt < MaxAttempts env")
    case False
    then show ?thesis by (simp add: poll_loop_exhausted)
  next
    case True
    from poll_body_cases [of env client uri tr] show ?thesis
    proof
      assume c: "poll_body env client uri tr = (Continue, tr @ [EvGet client uri, EvSleep])"
      from "1.IH" [OF True c [symmetric] refl] True c show ?thesis
        by (simp add: poll_loop_step)
    next
      assume "\<exists>r. poll_body env client uri tr = (Return r, tr @ [EvGet client uri])"
      then obtain r where r: "poll_body env client uri tr = (Return r, tr @ [EvGet client uri])" ..
      from poll_body_result [OF r] True r show ?thesis
        by (simp add: poll_loop_step)
    qed
  qed
qed

lemma polls_Suc: "polls client uri (Suc n) = polls client uri n @ [EvGet client uri, EvSleep]"
proof -
  have "replicate (Suc n) [EvGet client uri, EvSleep] =
        replicate n [EvGet client uri, EvSleep] @ [[EvGet client uri, EvSleep]]"
    by (simp add: replicate_append_same)
  then show ?thesis
    unfolding polls_def by (simp del: replicate_Suc)
qed

lemma polls_0: "polls client uri 0 = []"
  by (simp add: polls_def)

lemma poll_loop_processing:
  "(\<forall>k<n. polled_status env (Get env (tr @ polls client uri k) client uri) = Some APIStatusProcessing) \<Longrightarrow>
   attempt + int n \<le> MaxAttempts env \<Longrightarrow>
   poll_loop env client uri attempt tr =
     poll_loop env client uri (attempt + int n) (tr @ polls client uri n)"
proof (induction n)
  case 0
  then show ?case by (simp add: polls_0)
next
  case (Suc n)
  have "poll_loop env client uri attempt tr =
          poll_loop env client uri (attempt + int n) (tr @ polls client uri n)"
    using Suc by simp
  also have "\<dots> = poll_loop env client uri (attempt + int n + 1)
                     ((tr @ polls client uri n) @ [EvGet client uri, EvSleep])"
  proof -
    have lt: "attempt + int n < MaxAttempts env" using Suc.prems(2) by simp
    have "polled_status env (Get env (tr @ polls client uri n) client uri) = Some APIStatusProcessing"
      using Suc.prems(1) by simp
    from poll_body_processing [OF this] lt show ?thesis
      by (simp add: poll_loop_step)
  qed
  finally show ?case
    by (simp add: polls_Suc ac_simps)
qed


section \<open>The attempt budget\<close>

text \<open>Facts about the concrete environment, for the instances below.\<close>

lemma sample_polled_record:
  "polled_record (sample_env n p answers d) still_processing =
     Some \<lparr>Status = ''processing'', Expiry = ''2030-10-12T07:20:50.52Z'', FailureReason = None\<rparr>"
  "polled_record (sample_env n p answers d) now_success =
     Some \<lparr>Status = ''success'', Expiry = ''2030-10-12T07:20:50.52Z'', FailureReason = None\<rparr>"
  by (simp_all add: polled_record_def still_processing_def now_success_def sessionFromResponse_def
        sample_env_def session_response_def Header_Get_def sample_DecodeJSONBody_def sample_sessions_def)

lemma sample_Get:
  "Get (sample_env n p answers d) tr client uri =
     (if gets tr < length answers then answers ! gets tr else Inl ''connection refused'')"
  by (simp add: sample_env_def)

lemma gets_polls: "gets (polls client uri k) = k"
  by (induction k) (simp_all add: polls_0 polls_Suc gets_def)

text \<open>
  C1. A poll of the follow-up URI sends at most \<^verbatim>\<open>MaxAttempts - 1\<close> GET requests (none when
  \<^verbatim>\<open>MaxAttempts\<close> is below 1): the counter starts at 1 and the loop runs while it is
  strictly below \<^verbatim>\<open>MaxAttempts\<close>. When the first \<^verbatim>\<open>MaxAttempts - 1\<close> answers all carry a
  record with status \<^verbatim>\<open>processing\<close>, whatever follows them, the poll returns no record and
  the error of the exhausted budget, after exactly that many GETs. When one of these
  answers carries a record with status \<^verbatim>\<open>success\<close> and all answers before it carried
  \<^verbatim>\<open>processing\<close>, the poll returns that record and no error.
\<close>

theorem pollForSubmissionCompletion_budget:
  assumes "Client cfg = Some c"
  shows "gets (snd (pollForSubmissionCompletion env cfg uri tr)) \<le> gets tr + nat (MaxAttempts env - 1) \<and>
    ((\<forall>k < nat (MaxAttempts env - 1).
        polled_status env (Get env (tr @ polls (HTTPClient c) uri k) (HTTPClient c) uri) =
          Some APIStatusProcessing) \<longrightarrow>
      pollForSubmissionCompletion env cfg uri tr =
        ((None, Some PollingAttemptsExhausted), tr @ polls (HTTPClient c) uri (nat (MaxAttempts env - 1)))) \<and>
    (\<forall>n j. n < nat (MaxAttempts env - 1) \<and>
        (\<forall>k < n. polled_status env (Get env (tr @ polls (HTTPClient c) uri k) (HTTPClient c) uri) =
            Some APIStatusProcessing) \<and>
        polled_record env (Get env (tr @ polls (HTTPClient c) uri n) (HTTPClient c) uri) = Some j \<and>
        Status j = APIStatusSuccess \<longrightarrow>
      pollForSubmissionCompletion env cfg uri tr =
        ((Some j, None), tr @ polls (HTTPClient c) uri n @ [EvGet (HTTPClient c) uri]))"
proof (intro conjI allI impI)
  show "gets (snd (pollForSubmissionCompletion env cfg uri tr)) \<le> gets tr + nat (MaxAttempts env - 1)"
    using assms poll_loop_gets [of env "HTTPClient c" uri 1 tr]
    by (simp add: pollForSubmissionCompletion_def)
next
  assume all: "\<forall>k < nat (MaxAttempts env - 1).
        polled_status env (Get env (tr @ polls (HTTPClient c) uri k) (HTTPClient c) uri) =
          Some APIStatusProcessing"
  show "pollForSubmissionCompletion env cfg uri tr =
        ((None, Some PollingAttemptsExhausted), tr @ polls (HTTPClient c) uri (nat (MaxAttempts env - 1)))"
  proof (cases "1 \<le> MaxAttempts env")
    case True
    then have "1 + int (nat (MaxAttempts env - 1)) \<le> MaxAttempts env" by simp
    from poll_loop_processing [OF all this] True assms show ?thesis
      by (simp add: pollForSubmissionCompletion_def poll_loop_exhausted)
  next
    case False
    then have "nat (MaxAttempts env - 1) = 0" and "\<not> 1 < MaxAttempts env" by simp_all
    with assms show ?thesis
      by (simp add: pollForSubmissionCompletion_def poll_loop_exhausted polls_0)
  qed
next
  fix n j
  assume h: "n < nat (MaxAttempts env - 1) \<and>
        (\<forall>k < n. polled_status env (Get env (tr @ polls (HTTPClient c) uri k) (HTTPClient c) uri) =
            Some APIStatusProcessing) \<and>
        polled_record env (Get env (tr @ polls (HTTPClient c) uri n) (HTTPClient c) uri) = Some j \<and>
        Status j = APIStatusSuccess"
  then have lt: "1 + int n < MaxAttempts env" by linarith
  then have le: "1 + int n \<le> MaxAttempts env" by simp
  from h have all: "\<forall>k < n. polled_status env (Get env (tr @ polls (HTTPClient c) uri k) (HTTPClient c) uri) =
            Some APIStatusProcessing" by simp
  from h have "poll_body env (HTTPClient c) uri (tr @ polls (HTTPClient c) uri n) =
      (Return (Some j, None), (tr @ polls (HTTPClient c) uri n) @ [EvGet (HTTPClient c) uri])"
    by (intro poll_body_success) simp_all
  with lt have "poll_loop env (HTTPClient c) uri (1 + int n) (tr @ polls (HTTPClient c) uri n) =
      ((Some j, None), tr @ polls (HTTPClient c) uri n @ [EvGet (HTTPClient c) uri])"
    by (simp add: poll_loop_step)
  with poll_loop_processing [OF all le] assms
  show "pollForSubmissionCompletion env cfg uri tr =
        ((Some j, None), tr @ polls (HTTPClient c) uri n @ [EvGet (HTTPClient c) uri])"
    by (simp add: pollForSubmissionCompletion_def)
qed


theorem pollForSubmissionCompletion_budget_witness:
  "pollForSubmissionCompletion (sample_env 3 (Inl ''unused'') [still_processing, still_processing, still_processing] None)
      sample_cfg testSessionURI [] =
     ((None, Some PollingAttemptsExhausted),
      [EvGet ''testing'' testSessionURI, EvSleep, EvGet ''testing'' testSessionURI, EvSleep]) \<and>
   pollForSubmissionCompletion (sample_env 3 (Inl ''unused'') [still_processing, now_success] None)
      sample_cfg testSessionURI [] =
     ((Some \<lparr>Status = ''success'', Expiry = ''2030-10-12T07:20:50.52Z'', FailureReason = None\<rparr>, None),
      [EvGet ''testing'' testSessionURI, EvSleep, EvGet ''testing'' testSessionURI])"
proof -
  let ?e1 = "sample_env 3 (Inl ''unused'') [still_processing, still_processing, still_processing] None"
  let ?e2 = "sample_env 3 (Inl ''unused'') [still_processing, now_success] None"
  let ?j = "\<lparr>Status = ''success'', Expiry = ''2030-10-12T07:20:50.52Z'', FailureReason = None\<rparr>"
  have c: "Client sample_cfg = Some testClient" by (simp add: sample_cfg_def)
  have h: "HTTPClient testClient = ''testing''" by (simp add: testClient_def)
  have m1: "nat (MaxAttempts ?e1 - 1) = 2" and m2: "nat (MaxAttempts ?e2 - 1) = 2"
    by (simp_all add: sample_env_def)
  have a1: "\<forall>k < nat (MaxAttempts ?e1 - 1).
      polled_status ?e1 (Get ?e1 ([] @ polls (HTTPClient testClient) testSessionURI k)
        (HTTPClient testClient) testSessionURI) = Some APIStatusProcessing"
    unfolding m1
    by (auto simp: less_Suc_eq numeral_2_eq_2 sample_Get gets_polls polled_status_def
          sample_polled_record status_defs)
  have a2: "(1::nat) < nat (MaxAttempts ?e2 - 1) \<and>
      (\<forall>k < 1. polled_status ?e2 (Get ?e2 ([] @ polls (HTTPClient testClient) testSessionURI k)
        (HTTPClient testClient) testSessionURI) = Some APIStatusProcessing) \<and>
      polled_record ?e2 (Get ?e2 ([] @ polls (HTTPClient testClient) testSessionURI 1)
        (HTTPClient testClient) testSessionURI) = Some ?j \<and>
      Status ?j = APIStatusSuccess"
    unfolding m2
    by (auto simp: sample_Get gets_polls polled_status_def sample_polled_record status_defs)
  have p2: "polls ''testing'' testSessionURI 2 =
      [EvGet ''testing'' testSessionURI, EvSleep, EvGet ''testing'' testSessionURI, EvSleep]"
    and p1: "polls ''testing'' testSessionURI 1 = [EvGet ''testing'' testSessionURI, EvSleep]"
    by (simp_all add: polls_def numeral_2_eq_2)
  have r1: "pollForSubmissionCompletion ?e1 sample_cfg testSessionURI [] =
     ((None, Some PollingAttemptsExhausted),
      [EvGet ''testing'' testSessionURI, EvSleep, EvGet ''testing'' testSessionURI, EvSleep])"
    using pollForSubmissionCompletion_budget [OF c, THEN conjunct2, THEN conjunct1, THEN mp, OF a1]
    by (simp add: m1 h p2)
  have r2: "pollForSubmissionCompletion ?e2 sample_cfg testSessionURI [] =
     ((Some ?j, None), [EvGet ''testing'' testSessionURI, EvSleep, EvGet ''testing'' testSessionURI])"
    using pollForSubmissionCompletion_budget [OF c, THEN conjunct2, THEN conjunct2, rule_format, OF a2]
    by (simp add: h polls_def)
  from r1 r2 show ?thesis by simp
qed

section \<open>The ways through Run\<close>

lemma initClient_trace:
  "initClient env cfg0 tr = (cfg, e, tr1) \<Longrightarrow>
     tr1 = tr \<or> (\<exists>c. Client cfg0 = None \<and> e = None \<and> Client cfg = Some c \<and> tr1 = tr @ [EvNewClient c])"
  by (auto simp: initClient_def Let_def split: if_splits sum.splits)

lemma initClient_failed:
  "initClient env cfg0 tr = (cfg, Some err, tr1) \<Longrightarrow> tr1 = tr"
  by (auto simp: initClient_def Let_def split: if_splits sum.splits)

lemma pollForSubmissionCompletion_trace:
  "Client cfg = Some c \<Longrightarrow>
     \<exists>ext. snd (pollForSubmissionCompletion env cfg uri tr) = tr @ ext \<and>
           set ext \<subseteq> {EvGet (HTTPClient c) uri, EvSleep}"
  using poll_loop_trace [of env "HTTPClient c" uri 1 tr]
  by (simp add: pollForSubmissionCompletion_def)

lemma pollForSubmissionCompletion_result:
  "(\<exists>e. fst (pollForSubmissionCompletion env cfg uri tr) = (None, Some e)) \<or>
   (\<exists>j. fst (pollForSubmissionCompletion env cfg uri tr) = (Some j, None) \<and> Status j = APIStatusSuccess)"
  using poll_loop_result [of env _ uri 1 tr]
  by (cases "Client cfg") (simp_all add: pollForSubmissionCompletion_def)

text \<open>The five ways through \<^verbatim>\<open>Run\<close>: an invalid configuration, no client, an error after
  the POST, the synchronous success, and the poll followed by the clean-up.\<close>

lemma Run_cases:
  obtains
    (invalid) err where "check cfg0 = Some err"
      "Run env cfg0 endorsement mediaType tr = ((None, Some err), tr)"
  | (no_client) cfg err where "check cfg0 = None" "initClient env cfg0 tr = (cfg, Some err, tr)"
      "Run env cfg0 endorsement mediaType tr = ((None, Some err), tr)"
  | (early) cfg tr1 c err where "check cfg0 = None" "initClient env cfg0 tr = (cfg, None, tr1)"
      "Client cfg = Some c"
      "Run env cfg0 endorsement mediaType tr =
         ((None, Some err), tr1 @ [EvPost c (SubmitURI cfg) endorsement mediaType sessionMediaType])"
  | (sync) cfg tr1 c j where "check cfg0 = None" "initClient env cfg0 tr = (cfg, None, tr1)"
      "Client cfg = Some c" "Status j = APIStatusSuccess"
      "Run env cfg0 endorsement mediaType tr =
         ((Some j, None), tr1 @ [EvPost c (SubmitURI cfg) endorsement mediaType sessionMediaType])"
  | (async) cfg tr1 c res j sessionURI r tr3 where "check cfg0 = None"
      "initClient env cfg0 tr = (cfg, None, tr1)" "Client cfg = Some c"
      "PostResource env tr1 c endorsement mediaType sessionMediaType (SubmitURI cfg) = Inr res"
      "StatusCode res = 201" "sessionFromResponse env res = Inr j" "Status j = APIStatusProcessing"
      "ExtractLocation env res (SubmitURI cfg) = Inr sessionURI"
      "pollForSubmissionCompletion env cfg sessionURI
         (tr1 @ [EvPost c (SubmitURI cfg) endorsement mediaType sessionMediaType]) = (r, tr3)"
      "Run env cfg0 endorsement mediaType tr =
         (r, tr3 @ (if DeleteSession cfg
                    then EvDelete c sessionURI #
                         (case DeleteResource env tr3 c sessionURI of
                            None \<Rightarrow> [] | Some delErr \<Rightarrow> [EvLog sessionURI delErr])
                    else []))"
proof (cases "check cfg0")
  case (Some err)
  then show ?thesis using invalid by (simp add: Run_def)
next
  case None
  obtain cfg e tr1 where init: "initClient env cfg0 tr = (cfg, e, tr1)"
    by (cases "initClient env cfg0 tr") auto
  show ?thesis
  proof (cases e)
    case (Some err)
    with init initClient_failed [of env cfg0 tr cfg err tr1] None show ?thesis
      using no_client by (simp add: Run_def)
  next
    case e: None
    with init initClient_Client [of env cfg0 tr cfg tr1] obtain c where c: "Client cfg = Some c"
      by auto
    note i = init [unfolded e]
    let ?tr2 = "tr1 @ [EvPost c (SubmitURI cfg) endorsement mediaType sessionMediaType]"
    show ?thesis
    proof (cases "PostResource env tr1 c endorsement mediaType sessionMediaType (SubmitURI cfg)")
      case (Inl err)
      with None i c have "Run env cfg0 endorsement mediaType tr = ((None, Some (SubmitRequestFailed err)), ?tr2)"
        by (simp add: Run_def Let_def)
      with None i c show ?thesis using early by blast
    next
      case (Inr res)
      show ?thesis
      proof (cases "sessionFromResponse env res")
        case (Inl err)
        with None i c Inr have "\<exists>err'. Run env cfg0 endorsement mediaType tr = ((None, Some err'), ?tr2)"
          by (simp add: Run_def Let_def)
        with None i c show ?thesis using early by blast
      next
        case (Inr j)
        note R = Run_after_post [OF None i c \<open>PostResource env tr1 c endorsement mediaType sessionMediaType (SubmitURI cfg) = Inr res\<close> Inr]
        consider
            (a) "StatusCode res \<noteq> 200" "StatusCode res \<noteq> 201"
          | (b) "StatusCode res = 200" "Status j = APIStatusSuccess"
          | (c) "StatusCode res = 200" "Status j \<noteq> APIStatusSuccess"
          | (d) "StatusCode res = 201" "Status j \<noteq> APIStatusProcessing"
          | (e) err where "StatusCode res = 201" "Status j = APIStatusProcessing"
               "ExtractLocation env res (SubmitURI cfg) = Inl err"
          | (f) u where "StatusCode res = 201" "Status j = APIStatusProcessing"
               "ExtractLocation env res (SubmitURI cfg) = Inr u"
          by (cases "ExtractLocation env res (SubmitURI cfg)") auto
        then show ?thesis
        proof cases
          case a
          with R have "\<exists>err'. Run env cfg0 endorsement mediaType tr = ((None, Some err'), ?tr2)" by simp
          with None i c show ?thesis using early by blast
        next
          case b
          with R have "Run env cfg0 endorsement mediaType tr = ((Some j, None), ?tr2)" by simp
          with None i c b show ?thesis using sync by blast
        next
          case c1: c
          with R have "\<exists>err'. Run env cfg0 endorsement mediaType tr = ((None, Some err'), ?tr2)" by simp
          with None i c show ?thesis using early by blast
        next
          case d
          with R have "\<exists>err'. Run env cfg0 endorsement mediaType tr = ((None, Some err'), ?tr2)" by simp
          with None i c show ?thesis using early by blast
        next
          case e1: e
          with R have "\<exists>err'. Run env cfg0 endorsement mediaType tr = ((None, Some err'), ?tr2)" by simp
          with None i c show ?thesis using early by blast
        next
          case f
          obtain r tr3 where p: "pollForSubmissionCompletion env cfg u ?tr2 = (r, tr3)"
            by (cases "pollForSubmissionCompletion env cfg u ?tr2") auto
          with R f have "Run env cfg0 endorsement mediaType tr =
             (r, tr3 @ (if DeleteSession cfg
                    then EvDelete c u #
                         (case DeleteResource env tr3 c u of
                            None \<Rightarrow> [] | Some delErr \<Rightarrow> [EvLog u delErr])
                    else []))"
            by (simp split: option.splits)
          with None i c f p \<open>PostResource env tr1 c endorsement mediaType sessionMediaType (SubmitURI cfg) = Inr res\<close> Inr
          show ?thesis using async by blast
        qed
      qed
    qed
  qed
qed


section \<open>No retry\<close>

lemma posts_none: "\<forall>ev \<in> set ext. \<not> is_post ev \<Longrightarrow> posts ext = 0"
  by (simp add: posts_def)

lemma deletes_none: "\<forall>ev \<in> set ext. \<not> is_delete ev \<Longrightarrow> deletes ext = 0"
  by (simp add: deletes_def)

lemma initClient_posts:
  "initClient env cfg0 tr = (cfg, e, tr1) \<Longrightarrow> posts tr1 = posts tr"
  by (auto simp: posts_def dest!: initClient_trace)

lemma initClient_deletes:
  "initClient env cfg0 tr = (cfg, e, tr1) \<Longrightarrow> deletes tr1 = deletes tr"
  by (auto simp: deletes_def dest!: initClient_trace)

lemma initClient_gets:
  "initClient env cfg0 tr = (cfg, e, tr1) \<Longrightarrow> gets tr1 = gets tr"
  by (auto simp: gets_def dest!: initClient_trace)

lemma pollForSubmissionCompletion_posts:
  assumes "Client cfg = Some c" "pollForSubmissionCompletion env cfg uri tr = (r, tr3)"
  shows "posts tr3 = posts tr"
proof -
  from pollForSubmissionCompletion_trace [OF assms(1), of env uri tr] assms(2)
  obtain ext where "tr3 = tr @ ext" "set ext \<subseteq> {EvGet (HTTPClient c) uri, EvSleep}" by auto
  moreover from this have "posts ext = 0" by (intro posts_none) auto
  ultimately show ?thesis by (simp add: posts_append)
qed

lemma pollForSubmissionCompletion_deletes:
  assumes "Client cfg = Some c" "pollForSubmissionCompletion env cfg uri tr = (r, tr3)"
  shows "deletes tr3 = deletes tr"
proof -
  from pollForSubmissionCompletion_trace [OF assms(1), of env uri tr] assms(2)
  obtain ext where "tr3 = tr @ ext" "set ext \<subseteq> {EvGet (HTTPClient c) uri, EvSleep}" by auto
  moreover from this have "deletes ext = 0" by (intro deletes_none) auto
  ultimately show ?thesis by (simp add: deletes_append)
qed

lemma Run_posts: "posts (snd (Run env cfg0 endorsement mediaType tr)) \<le> posts tr + 1"
proof (cases rule: Run_cases [of cfg0 env endorsement mediaType tr])
  case (invalid err)
  then show ?thesis by simp
next
  case (no_client cfg err)
  then show ?thesis by simp
next
  case (early cfg tr1 c err)
  with initClient_posts [OF early(2)] show ?thesis by (simp add: posts_def)
next
  case (sync cfg tr1 c j)
  with initClient_posts [OF sync(2)] show ?thesis by (simp add: posts_def)
next
  case (async cfg tr1 c res j sessionURI r tr3)
  from pollForSubmissionCompletion_posts [OF async(3) async(9)] initClient_posts [OF async(2)]
  have "posts tr3 = posts tr + 1" by (simp add: posts_def)
  with async(10) show ?thesis by (simp add: posts_def split: option.splits)
qed

text \<open>
  C6. In an iteration of the poll loop, the loop goes on to the next iteration exactly
  when the answer to the GET carries a session record with status \<^verbatim>\<open>processing\<close>. With
  any other answer the poll ends with this one GET: a GET that could not be sent returns
  the fetch error, a status code other than 200 returns the error naming the status, and
  a body that the decoder rejects returns the decoder's error. \<^verbatim>\<open>Run\<close> sends the POST at
  most once.
\<close>

theorem poll_loop_no_retry:
  "(attempt < MaxAttempts env \<longrightarrow>
      (polled_status env (Get env tr client uri) = Some APIStatusProcessing \<longrightarrow>
         poll_loop env client uri attempt tr =
           poll_loop env client uri (attempt + 1) (tr @ [EvGet client uri, EvSleep])) \<and>
      (polled_status env (Get env tr client uri) \<noteq> Some APIStatusProcessing \<longrightarrow>
         snd (poll_loop env client uri attempt tr) = tr @ [EvGet client uri]) \<and>
      (\<forall>err. Get env tr client uri = Inl err \<longrightarrow>
         poll_loop env client uri attempt tr =
           ((None, Some (SessionFetchFailed err)), tr @ [EvGet client uri])) \<and>
      (\<forall>res. Get env tr client uri = Inr res \<and> StatusCode res \<noteq> 200 \<longrightarrow>
         poll_loop env client uri attempt tr =
           ((None, Some (SessionFetchUnexpectedStatus (StatusText res))), tr @ [EvGet client uri])) \<and>
      (\<forall>res err. Get env tr client uri = Inr res \<and> StatusCode res = 200 \<and>
           sessionFromResponse env res = Inl err \<longrightarrow>
         poll_loop env client uri attempt tr = ((None, Some err), tr @ [EvGet client uri]))) \<and>
   posts (snd (Run env cfg endorsement mediaType tr0)) \<le> posts tr0 + 1"
proof (intro conjI impI allI)
  assume "attempt < MaxAttempts env"
    and "polled_status env (Get env tr client uri) = Some APIStatusProcessing"
  then show "poll_loop env client uri attempt tr =
           poll_loop env client uri (attempt + 1) (tr @ [EvGet client uri, EvSleep])"
    by (simp add: poll_loop_step poll_body_processing)
next
  assume a: "attempt < MaxAttempts env"
    and "polled_status env (Get env tr client uri) \<noteq> Some APIStatusProcessing"
  from poll_body_not_processing [OF this(2)] obtain r where
    "poll_body env client uri tr = (Return r, tr @ [EvGet client uri])" ..
  with a show "snd (poll_loop env client uri attempt tr) = tr @ [EvGet client uri]"
    by (simp add: poll_loop_step)
next
  fix err
  assume "attempt < MaxAttempts env" and "Get env tr client uri = Inl err"
  then show "poll_loop env client uri attempt tr =
           ((None, Some (SessionFetchFailed err)), tr @ [EvGet client uri])"
    by (simp add: poll_loop_step poll_body_def)
next
  fix res
  assume "attempt < MaxAttempts env" and "Get env tr client uri = Inr res \<and> StatusCode res \<noteq> 200"
  then show "poll_loop env client uri attempt tr =
           ((None, Some (SessionFetchUnexpectedStatus (StatusText res))), tr @ [EvGet client uri])"
    by (simp add: poll_loop_step poll_body_def)
next
  fix res err
  assume "attempt < MaxAttempts env"
    and "Get env tr client uri = Inr res \<and> StatusCode res = 200 \<and> sessionFromResponse env res = Inl err"
  then show "poll_loop env client uri attempt tr = ((None, Some err), tr @ [EvGet client uri])"
    by (simp add: poll_loop_step poll_body_def)
next
  show "posts (snd (Run env cfg endorsement mediaType tr0)) \<le> posts tr0 + 1"
    by (rule Run_posts)
qed

theorem poll_loop_no_retry_witness:
  "poll_loop (sample_env 3 (Inl ''unused'') [still_processing, Inl ''connection reset'', now_success] None)
      ''testing'' testSessionURI 1 [] =
     ((None, Some (SessionFetchFailed ''connection reset'')),
      [EvGet ''testing'' testSessionURI, EvSleep, EvGet ''testing'' testSessionURI]) \<and>
   poll_loop (sample_env 3 (Inl ''unused'') [Inr (session_response 404 ''''), now_success] None)
      ''testing'' testSessionURI 1 [] =
     ((None, Some (SessionFetchUnexpectedStatus ''404 Not Found'')), [EvGet ''testing'' testSessionURI]) \<and>
   poll_loop (sample_env 3 (Inl ''unused'') [Inr (session_response 200 ''invalid json''), now_success] None)
      ''testing'' testSessionURI 1 [] =
     ((None, Some (FailureDecodingSession ''invalid character'')), [EvGet ''testing'' testSessionURI])"
proof -
  let ?e1 = "sample_env 3 (Inl ''unused'') [still_processing, Inl ''connection reset'', now_success] None"
  let ?e2 = "sample_env 3 (Inl ''unused'') [Inr (session_response 404 ''''), now_success] None"
  let ?e3 = "sample_env 3 (Inl ''unused'') [Inr (session_response 200 ''invalid json''), now_success] None"
  let ?g = "EvGet ''testing'' testSessionURI"
  have m: "(1::int) < MaxAttempts ?e1" "(2::int) < MaxAttempts ?e1" "(1::int) < MaxAttempts ?e2"
    "(1::int) < MaxAttempts ?e3"
    by (simp_all add: sample_env_def)
  have g1: "polled_status ?e1 (Get ?e1 [] ''testing'' testSessionURI) = Some APIStatusProcessing"
    by (simp add: sample_Get gets_def polled_status_def sample_polled_record status_defs)
  have g2: "Get ?e1 ([] @ [?g, EvSleep]) ''testing'' testSessionURI = Inl ''connection reset''"
    by (simp add: sample_Get gets_def)
  have g3: "Get ?e2 [] ''testing'' testSessionURI = Inr (session_response 404 '''') \<and>
            StatusCode (session_response 404 '''') \<noteq> 200"
    by (simp add: sample_Get gets_def session_response_def)
  have g4: "Get ?e3 [] ''testing'' testSessionURI = Inr (session_response 200 ''invalid json'') \<and>
            StatusCode (session_response 200 ''invalid json'') = 200 \<and>
            sessionFromResponse ?e3 (session_response 200 ''invalid json'') =
              Inl (FailureDecodingSession ''invalid character'')"
    by (simp add: sample_Get gets_def session_response_def sessionFromResponse_def Header_Get_def
          sample_env_def sample_DecodeJSONBody_def sample_sessions_def)
  note T = poll_loop_no_retry [THEN conjunct1, rule_format]
  have "poll_loop ?e1 ''testing'' testSessionURI 1 [] =
          poll_loop ?e1 ''testing'' testSessionURI (1 + 1) ([] @ [?g, EvSleep])"
    using T [OF m(1), THEN conjunct1, rule_format, OF g1] .
  also have "\<dots> = ((None, Some (SessionFetchFailed ''connection reset'')), ([] @ [?g, EvSleep]) @ [?g])"
    using T [of "1 + 1" ?e1, THEN conjunct2, THEN conjunct2, THEN conjunct1, rule_format, OF _ g2] m(2)
    by simp
  finally have r1: "poll_loop ?e1 ''testing'' testSessionURI 1 [] =
      ((None, Some (SessionFetchFailed ''connection reset'')), [?g, EvSleep, ?g])"
    by simp
  have r2: "poll_loop ?e2 ''testing'' testSessionURI 1 [] =
      ((None, Some (SessionFetchUnexpectedStatus ''404 Not Found'')), [?g])"
    using T [OF m(3), THEN conjunct2, THEN conjunct2, THEN conjunct2, THEN conjunct1, rule_format, OF g3]
    by (simp add: session_response_def)
  have r3: "poll_loop ?e3 ''testing'' testSessionURI 1 [] =
      ((None, Some (FailureDecodingSession ''invalid character'')), [?g])"
    using T [OF m(4), THEN conjunct2, THEN conjunct2, THEN conjunct2, THEN conjunct2, rule_format, OF g4]
    by simp
  from r1 r2 r3 show ?thesis by simp
qed


section \<open>The clean-up\<close>

text \<open>Nothing before the clean-up consults \<^verbatim>\<open>DeleteResource\<close>.\<close>

lemma sessionFromResponse_DeleteResource [simp]:
  "sessionFromResponse (env\<lparr>DeleteResource := d\<rparr>) res = sessionFromResponse env res"
  by (simp add: sessionFromResponse_def Let_def split: sum.split)

lemma initClient_DeleteResource [simp]:
  "initClient (env\<lparr>DeleteResource := d\<rparr>) cfg tr = initClient env cfg tr"
  by (simp add: initClient_def)

lemma poll_body_DeleteResource [simp]:
  "poll_body (env\<lparr>DeleteResource := d\<rparr>) client uri tr = poll_body env client uri tr"
  by (simp add: poll_body_def split: sum.split)

lemma poll_loop_DeleteResource [simp]:
  "poll_loop (env\<lparr>DeleteResource := d\<rparr>) client uri attempt tr = poll_loop env client uri attempt tr"
proof (induction env client uri attempt tr rule: poll_loop.induct)
  case (1 env client uri attempt tr)
  show ?case
  proof (cases "attempt < MaxAttempts env")
    case False
    then show ?thesis by (simp add: poll_loop_exhausted)
  next
    case True
    from poll_body_cases [of env client uri tr] show ?thesis
    proof
      assume c: "poll_body env client uri tr = (Continue, tr @ [EvGet client uri, EvSleep])"
      from "1.IH" [OF True c [symmetric] refl] True c show ?thesis
        by (simp add: poll_loop_step)
    next
      assume "\<exists>r. poll_body env client uri tr = (Return r, tr @ [EvGet client uri])"
      then obtain r where r: "poll_body env client uri tr = (Return r, tr @ [EvGet client uri])" ..
      with True show ?thesis
        by (simp add: poll_loop_step)
    qed
  qed
qed

lemma pollForSubmissionCompletion_DeleteResource [simp]:
  "pollForSubmissionCompletion (env\<lparr>DeleteResource := d\<rparr>) cfg uri tr =
     pollForSubmissionCompletion env cfg uri tr"
  by (simp add: pollForSubmissionCompletion_def split: option.split)

lemma Run_DeleteResource:
  "fst (Run (env\<lparr>DeleteResource := d\<rparr>) cfg0 endorsement mediaType tr) =
     fst (Run env cfg0 endorsement mediaType tr)"
  by (simp add: Run_def Let_def split: option.split prod.split sum.split)


lemma initClient_fields:
  "initClient env cfg0 tr = (cfg, e, tr1) \<Longrightarrow>
     DeleteSession cfg = DeleteSession cfg0 \<and> SubmitURI cfg = SubmitURI cfg0"
  by (auto simp: initClient_def Let_def split: if_splits sum.splits)

lemma sample_sessionFromResponse:
  "sessionFromResponse (sample_env n p answers d) created_response =
     Inr \<lparr>Status = ''processing'', Expiry = ''2030-10-12T07:20:50.52Z'', FailureReason = None\<rparr>"
  "sessionFromResponse (sample_env n p answers d) created_no_location =
     Inr \<lparr>Status = ''processing'', Expiry = ''2030-10-12T07:20:50.52Z'', FailureReason = None\<rparr>"
  "sessionFromResponse (sample_env n p answers d) (session_response code ''{status: whatever}'') =
     Inr \<lparr>Status = ''whatever'', Expiry = ''2030-10-12T07:20:50.52Z'', FailureReason = None\<rparr>"
  "sessionFromResponse (sample_env n p answers d) (session_response code ''{status: success}'') =
     Inr \<lparr>Status = ''success'', Expiry = ''2030-10-12T07:20:50.52Z'', FailureReason = None\<rparr>"
  by (simp_all add: sessionFromResponse_def sample_env_def created_response_def created_no_location_def
        session_response_def Header_Get_def sample_DecodeJSONBody_def sample_sessions_def)

lemma sample_poll:
  "pollForSubmissionCompletion (sample_env 3 p [still_processing, now_success] d) sample_cfg
      testSessionURI [ev] =
     ((Some \<lparr>Status = ''success'', Expiry = ''2030-10-12T07:20:50.52Z'', FailureReason = None\<rparr>, None),
      [ev, EvGet ''testing'' testSessionURI, EvSleep, EvGet ''testing'' testSessionURI])"
  if "\<not> is_get ev"
proof -
  let ?e = "sample_env 3 p [still_processing, now_success] d"
  have m: "(1::int) < MaxAttempts ?e" "(2::int) < MaxAttempts ?e"
    by (simp_all add: sample_env_def)
  have b1: "poll_body ?e ''testing'' testSessionURI [ev] =
      (Continue, [ev] @ [EvGet ''testing'' testSessionURI, EvSleep])"
    using that
    by (intro poll_body_processing)
       (simp add: sample_Get gets_def polled_status_def sample_polled_record status_defs)
  have b2: "poll_body ?e ''testing'' testSessionURI [ev, EvGet ''testing'' testSessionURI, EvSleep] =
      (Return (Some \<lparr>Status = ''success'', Expiry = ''2030-10-12T07:20:50.52Z'', FailureReason = None\<rparr>, None),
       [ev, EvGet ''testing'' testSessionURI, EvSleep] @ [EvGet ''testing'' testSessionURI])"
    using that
    by (intro poll_body_success)
       (simp_all add: sample_Get gets_def sample_polled_record status_defs)
  show ?thesis
    using m b1 b2
    by (simp add: pollForSubmissionCompletion_def sample_cfg_def testClient_def poll_loop_step)
qed

text \<open>
  C4. Let a call of \<^verbatim>\<open>Run\<close> reach the poll: the configuration is valid, a client is there,
  the POST is answered with 201 and a record of status \<^verbatim>\<open>processing\<close>, and the follow-up
  URI is found. Then \<^verbatim>\<open>Run\<close> returns what the poll returned, record or error. With the
  flag \<^verbatim>\<open>DeleteSession\<close> set, the events of the call are those of the poll followed by
  one DELETE of the follow-up URI and, when the DELETE failed, by the log line; no DELETE
  was sent before, so the call sends exactly one. With the flag unset it sends none.
  Whatever \<^verbatim>\<open>DeleteResource\<close> answers, the pair returned is the same.
\<close>

theorem Run_delete_session:
  assumes "check cfg0 = None"
    and "initClient env cfg0 tr = (cfg, None, tr1)"
    and "Client cfg = Some c"
    and "PostResource env tr1 c endorsement mediaType sessionMediaType (SubmitURI cfg) = Inr res"
    and "StatusCode res = 201"
    and "sessionFromResponse env res = Inr j"
    and "Status j = APIStatusProcessing"
    and "ExtractLocation env res (SubmitURI cfg) = Inr sessionURI"
    and "pollForSubmissionCompletion env cfg sessionURI
           (tr1 @ [EvPost c (SubmitURI cfg) endorsement mediaType sessionMediaType]) = (r, tr3)"
  shows "Run env cfg0 endorsement mediaType tr =
           (r, tr3 @ (if DeleteSession cfg0
                      then EvDelete c sessionURI #
                           (case DeleteResource env tr3 c sessionURI of
                              None \<Rightarrow> []
                            | Some delErr \<Rightarrow> [EvLog sessionURI delErr])
                      else [])) \<and>
         deletes tr3 = deletes tr \<and>
         deletes (snd (Run env cfg0 endorsement mediaType tr)) =
           deletes tr + (if DeleteSession cfg0 then 1 else 0) \<and>
         (\<forall>d. fst (Run (env\<lparr>DeleteResource := d\<rparr>) cfg0 endorsement mediaType tr) = r)"
proof -
  from initClient_fields [OF assms(2)] have ds: "DeleteSession cfg = DeleteSession cfg0"
    by simp
  have run: "Run env cfg0 endorsement mediaType tr =
           (r, tr3 @ (if DeleteSession cfg0
                      then EvDelete c sessionURI #
                           (case DeleteResource env tr3 c sessionURI of
                              None \<Rightarrow> []
                            | Some delErr \<Rightarrow> [EvLog sessionURI delErr])
                      else []))"
    using Run_after_post [OF assms(1-4) assms(6)] assms(5,7,8,9) ds
    by (simp split: option.splits)
  have d3: "deletes tr3 = deletes tr"
    using pollForSubmissionCompletion_deletes [OF assms(3) assms(9)] initClient_deletes [OF assms(2)]
    by (simp add: deletes_def)
  have dr: "deletes (snd (Run env cfg0 endorsement mediaType tr)) =
           deletes tr + (if DeleteSession cfg0 then 1 else 0)"
    using run d3 by (simp add: deletes_def split: option.splits)
  have "\<forall>d. fst (Run (env\<lparr>DeleteResource := d\<rparr>) cfg0 endorsement mediaType tr) = r"
    using run by (simp add: Run_DeleteResource)
  with run d3 dr show ?thesis by blast
qed

theorem Run_delete_session_witness:
  "Run (sample_env 3 (Inr created_response) [still_processing, now_success] (Some ''gone''))
      sample_cfg testEndorsement testEndorsementMediaType [] =
     ((Some \<lparr>Status = ''success'', Expiry = ''2030-10-12T07:20:50.52Z'', FailureReason = None\<rparr>, None),
      [EvPost testClient testSubmitURI testEndorsement testEndorsementMediaType sessionMediaType,
       EvGet ''testing'' testSessionURI, EvSleep, EvGet ''testing'' testSessionURI,
       EvDelete testClient testSessionURI, EvLog testSessionURI ''gone''])"
proof -
  let ?env = "sample_env 3 (Inr created_response) [still_processing, now_success] (Some ''gone'')"
  let ?j = "\<lparr>Status = ''processing'', Expiry = ''2030-10-12T07:20:50.52Z'', FailureReason = None\<rparr>"
  let ?post = "EvPost testClient (SubmitURI sample_cfg) testEndorsement testEndorsementMediaType sessionMediaType"
  have h1: "check sample_cfg = None"
    by (simp add: check_def sample_cfg_def testSubmitURI_def)
  have h2: "initClient ?env sample_cfg [] = (sample_cfg, None, [])"
    by (simp add: initClient_def sample_cfg_def)
  have h3: "Client sample_cfg = Some testClient"
    by (simp add: sample_cfg_def)
  have h4: "PostResource ?env [] testClient testEndorsement testEndorsementMediaType sessionMediaType
              (SubmitURI sample_cfg) = Inr created_response"
    by (simp add: sample_env_def)
  have h5: "StatusCode created_response = 201"
    by (simp add: created_response_def)
  have h6: "sessionFromResponse ?env created_response = Inr ?j"
    by (rule sample_sessionFromResponse)
  have h7: "Status ?j = APIStatusProcessing"
    by (simp add: status_defs)
  have h8: "ExtractLocation ?env created_response (SubmitURI sample_cfg) = Inr testSessionURI"
    by (simp add: sample_env_def sample_ExtractLocation_def created_response_def)
  have h9: "pollForSubmissionCompletion ?env sample_cfg testSessionURI ([] @ [?post]) =
      ((Some \<lparr>Status = ''success'', Expiry = ''2030-10-12T07:20:50.52Z'', FailureReason = None\<rparr>, None),
       [?post, EvGet ''testing'' testSessionURI, EvSleep, EvGet ''testing'' testSessionURI])"
    using sample_poll [of ?post] by simp
  have s: "SubmitURI sample_cfg = testSubmitURI" "DeleteSession sample_cfg"
    by (simp_all add: sample_cfg_def)
  have d: "DeleteResource ?env tr testClient testSessionURI = Some ''gone''" for tr
    by (simp add: sample_env_def)
  show ?thesis
    using Run_delete_session [OF h1 h2 h3 h4 h5 h6 h7 h8 h9, THEN conjunct1]
    by (simp add: s d)
qed

section \<open>The asynchronous answer\<close>

text \<open>
  C5. When the POST is answered with status code 201 and the body decodes to a session
  record: with a status other than \<^verbatim>\<open>processing\<close>, \<^verbatim>\<open>Run\<close> returns the error naming that
  status and its events end with the POST; with status \<^verbatim>\<open>processing\<close> and no follow-up
  URI to extract, \<^verbatim>\<open>Run\<close> returns the error of the missing URI and its events end with the
  POST; with status \<^verbatim>\<open>processing\<close> and a follow-up URI, \<^verbatim>\<open>Run\<close> returns what the poll of
  that URI returns. A GET among the events of the call implies the status
  \<^verbatim>\<open>processing\<close> and a follow-up URI.
\<close>

theorem Run_async_201:
  assumes "check cfg0 = None"
    and "initClient env cfg0 tr = (cfg, None, tr1)"
    and "Client cfg = Some c"
    and "PostResource env tr1 c endorsement mediaType sessionMediaType (SubmitURI cfg) = Inr res"
    and "StatusCode res = 201"
    and "sessionFromResponse env res = Inr j"
  shows "(Status j \<noteq> APIStatusProcessing \<longrightarrow>
            Run env cfg0 endorsement mediaType tr =
              ((None, Some (UnexpectedSessionState (Status j) 201)),
               tr1 @ [EvPost c (SubmitURI cfg) endorsement mediaType sessionMediaType])) \<and>
         (\<forall>err. Status j = APIStatusProcessing \<and> ExtractLocation env res (SubmitURI cfg) = Inl err \<longrightarrow>
            Run env cfg0 endorsement mediaType tr =
              ((None, Some (CannotDetermineSessionURI err)),
               tr1 @ [EvPost c (SubmitURI cfg) endorsement mediaType sessionMediaType])) \<and>
         (\<forall>u. Status j = APIStatusProcessing \<and> ExtractLocation env res (SubmitURI cfg) = Inr u \<longrightarrow>
            fst (Run env cfg0 endorsement mediaType tr) =
              fst (pollForSubmissionCompletion env cfg u
                     (tr1 @ [EvPost c (SubmitURI cfg) endorsement mediaType sessionMediaType]))) \<and>
         (gets (snd (Run env cfg0 endorsement mediaType tr)) \<noteq> gets tr \<longrightarrow>
            Status j = APIStatusProcessing \<and> (\<exists>u. ExtractLocation env res (SubmitURI cfg) = Inr u))"
proof -
  note R = Run_after_post [OF assms(1-4) assms(6)]
  have g: "gets (tr1 @ [EvPost c (SubmitURI cfg) endorsement mediaType sessionMediaType]) = gets tr"
    using initClient_gets [OF assms(2)] by (simp add: gets_def)
  have a: "Status j \<noteq> APIStatusProcessing \<longrightarrow>
            Run env cfg0 endorsement mediaType tr =
              ((None, Some (UnexpectedSessionState (Status j) 201)),
               tr1 @ [EvPost c (SubmitURI cfg) endorsement mediaType sessionMediaType])"
    using R assms(5) by simp
  have b: "\<forall>err. Status j = APIStatusProcessing \<and> ExtractLocation env res (SubmitURI cfg) = Inl err \<longrightarrow>
            Run env cfg0 endorsement mediaType tr =
              ((None, Some (CannotDetermineSessionURI err)),
               tr1 @ [EvPost c (SubmitURI cfg) endorsement mediaType sessionMediaType])"
    using R assms(5) by simp
  have c: "\<forall>u. Status j = APIStatusProcessing \<and> ExtractLocation env res (SubmitURI cfg) = Inr u \<longrightarrow>
            fst (Run env cfg0 endorsement mediaType tr) =
              fst (pollForSubmissionCompletion env cfg u
                     (tr1 @ [EvPost c (SubmitURI cfg) endorsement mediaType sessionMediaType]))"
    using R assms(5) by (simp split: prod.splits)
  have d: "gets (snd (Run env cfg0 endorsement mediaType tr)) \<noteq> gets tr \<longrightarrow>
            Status j = APIStatusProcessing \<and> (\<exists>u. ExtractLocation env res (SubmitURI cfg) = Inr u)"
  proof (cases "Status j = APIStatusProcessing")
    case False
    with a g show ?thesis by simp
  next
    case True
    show ?thesis
    proof (cases "ExtractLocation env res (SubmitURI cfg)")
      case (Inl err)
      with b True g show ?thesis by simp
    next
      case (Inr u)
      with True show ?thesis by simp
    qed
  qed
  from a b c d show ?thesis by blast
qed

theorem Run_async_201_witness:
  "Run (sample_env 3 (Inr created_no_location) [now_success] None)
      sample_cfg testEndorsement testEndorsementMediaType [] =
     ((None, Some (CannotDetermineSessionURI ''no Location header found in response'')),
      [EvPost testClient testSubmitURI testEndorsement testEndorsementMediaType sessionMediaType]) \<and>
   Run (sample_env 3 (Inr (session_response 201 ''{status: whatever}'')) [now_success] None)
      sample_cfg testEndorsement testEndorsementMediaType [] =
     ((None, Some (UnexpectedSessionState ''whatever'' 201)),
      [EvPost testClient testSubmitURI testEndorsement testEndorsementMediaType sessionMediaType])"
proof -
  let ?e1 = "sample_env 3 (Inr created_no_location) [now_success] None"
  let ?e2 = "sample_env 3 (Inr (session_response 201 ''{status: whatever}'')) [now_success] None"
  let ?j1 = "\<lparr>Status = ''processing'', Expiry = ''2030-10-12T07:20:50.52Z'', FailureReason = None\<rparr>"
  let ?j2 = "\<lparr>Status = ''whatever'', Expiry = ''2030-10-12T07:20:50.52Z'', FailureReason = None\<rparr>"
  have h1: "check sample_cfg = None"
    by (simp add: check_def sample_cfg_def testSubmitURI_def)
  have h2: "initClient ?e1 sample_cfg [] = (sample_cfg, None, [])"
    "initClient ?e2 sample_cfg [] = (sample_cfg, None, [])"
    by (simp_all add: initClient_def sample_cfg_def)
  have h3: "Client sample_cfg = Some testClient"
    by (simp add: sample_cfg_def)
  have h4: "PostResource ?e1 [] testClient testEndorsement testEndorsementMediaType sessionMediaType
              (SubmitURI sample_cfg) = Inr created_no_location"
    "PostResource ?e2 [] testClient testEndorsement testEndorsementMediaType sessionMediaType
              (SubmitURI sample_cfg) = Inr (session_response 201 ''{status: whatever}'')"
    by (simp_all add: sample_env_def)
  have h5: "StatusCode created_no_location = 201"
    "StatusCode (session_response 201 ''{status: whatever}'') = 201"
    by (simp_all add: created_no_location_def session_response_def)
  have h6: "sessionFromResponse ?e1 created_no_location = Inr ?j1"
    "sessionFromResponse ?e2 (session_response 201 ''{status: whatever}'') = Inr ?j2"
    by (rule sample_sessionFromResponse)+
  have l: "Status ?j1 = APIStatusProcessing \<and>
      ExtractLocation ?e1 created_no_location (SubmitURI sample_cfg) =
        Inl ''no Location header found in response''"
    by (simp add: status_defs sample_env_def sample_ExtractLocation_def created_no_location_def)
  have n: "Status ?j2 \<noteq> APIStatusProcessing"
    by (simp add: status_defs)
  have s: "SubmitURI sample_cfg = testSubmitURI"
    by (simp add: sample_cfg_def)
  have r1: "Run ?e1 sample_cfg testEndorsement testEndorsementMediaType [] =
     ((None, Some (CannotDetermineSessionURI ''no Location header found in response'')),
      [EvPost testClient testSubmitURI testEndorsement testEndorsementMediaType sessionMediaType])"
    using Run_async_201 [OF h1 h2(1) h3 h4(1) h5(1) h6(1), THEN conjunct2, THEN conjunct1, rule_format, OF l]
    by (simp add: s)
  have r2: "Run ?e2 sample_cfg testEndorsement testEndorsementMediaType [] =
     ((None, Some (UnexpectedSessionState ''whatever'' 201)),
      [EvPost testClient testSubmitURI testEndorsement testEndorsementMediaType sessionMediaType])"
    using Run_async_201 [OF h1 h2(2) h3 h4(2) h5(2) h6(2), THEN conjunct1, rule_format, OF n]
    by (simp add: s)
  from r1 r2 show ?thesis by simp
qed


section \<open>Record or error\<close>

lemma sample_Run_async:
  "Run (sample_env 3 (Inr created_response) [still_processing, now_success] None)
      sample_cfg testEndorsement testEndorsementMediaType [] =
     ((Some \<lparr>Status = ''success'', Expiry = ''2030-10-12T07:20:50.52Z'', FailureReason = None\<rparr>, None),
      [EvPost testClient testSubmitURI testEndorsement testEndorsementMediaType sessionMediaType,
       EvGet ''testing'' testSessionURI, EvSleep, EvGet ''testing'' testSessionURI,
       EvDelete testClient testSessionURI])"
proof -
  let ?env = "sample_env 3 (Inr created_response) [still_processing, now_success] None"
  let ?post = "EvPost testClient testSubmitURI testEndorsement testEndorsementMediaType sessionMediaType"
  have h1: "check sample_cfg = None"
    by (simp add: check_def sample_cfg_def testSubmitURI_def)
  have h2: "initClient ?env sample_cfg [] = (sample_cfg, None, [])"
    by (simp add: initClient_def sample_cfg_def)
  have h3: "Client sample_cfg = Some testClient"
    by (simp add: sample_cfg_def)
  have h4: "PostResource ?env [] testClient testEndorsement testEndorsementMediaType sessionMediaType
              (SubmitURI sample_cfg) = Inr created_response"
    by (simp add: sample_env_def)
  have s: "SubmitURI sample_cfg = testSubmitURI" "DeleteSession sample_cfg"
    by (simp_all add: sample_cfg_def)
  have x: "StatusCode created_response = 201"
    "ExtractLocation ?env created_response testSubmitURI = Inr testSessionURI"
    "DeleteResource ?env tr testClient testSessionURI = None" for tr
    by (simp_all add: sample_env_def sample_ExtractLocation_def created_response_def)
  show ?thesis
    using Run_after_post [OF h1 h2 h3 h4 sample_sessionFromResponse(1)] sample_poll [of ?post]
    by (simp add: s x status_defs)
qed

text \<open>
  C9. \<^verbatim>\<open>Run\<close> returns a record exactly when it returns no error, and a record returned
  without an error has status \<^verbatim>\<open>success\<close>, on the synchronous path as on the path through
  the poll. The same holds of \<^verbatim>\<open>pollForSubmissionCompletion\<close> (a call through a nil client
  counting as an error).
\<close>

theorem Run_result_exclusive:
  "(fst (fst (Run env cfg endorsement mediaType tr)) \<noteq> None \<longleftrightarrow>
      snd (fst (Run env cfg endorsement mediaType tr)) = None) \<and>
   (snd (fst (Run env cfg endorsement mediaType tr)) = None \<longrightarrow>
      (\<exists>j. fst (fst (Run env cfg endorsement mediaType tr)) = Some j \<and> Status j = APIStatusSuccess)) \<and>
   (fst (fst (pollForSubmissionCompletion env cfg uri tr)) \<noteq> None \<longleftrightarrow>
      snd (fst (pollForSubmissionCompletion env cfg uri tr)) = None) \<and>
   (snd (fst (pollForSubmissionCompletion env cfg uri tr)) = None \<longrightarrow>
      (\<exists>j. fst (fst (pollForSubmissionCompletion env cfg uri tr)) = Some j \<and>
           Status j = APIStatusSuccess))"
proof -
  have run: "(\<exists>e. fst (Run env cfg endorsement mediaType tr) = (None, Some e)) \<or>
     (\<exists>j. fst (Run env cfg endorsement mediaType tr) = (Some j, None) \<and> Status j = APIStatusSuccess)"
  proof (cases rule: Run_cases [of cfg env endorsement mediaType tr])
    case (invalid err)
    then show ?thesis by simp
  next
    case (no_client cfg' err)
    then show ?thesis by simp
  next
    case (early cfg' tr1 c err)
    then show ?thesis by simp
  next
    case (sync cfg' tr1 c j)
    then show ?thesis by simp
  next
    case (async cfg' tr1 c res j sessionURI r tr3)
    from pollForSubmissionCompletion_result [of env cfg' sessionURI
        "tr1 @ [EvPost c (SubmitURI cfg') endorsement mediaType sessionMediaType]"] async(9,10)
    show ?thesis by simp
  qed
  note poll = pollForSubmissionCompletion_result [of env cfg uri tr]
  from run have r1: "(fst (fst (Run env cfg endorsement mediaType tr)) \<noteq> None \<longleftrightarrow>
      snd (fst (Run env cfg endorsement mediaType tr)) = None)"
    and r2: "(snd (fst (Run env cfg endorsement mediaType tr)) = None \<longrightarrow>
      (\<exists>j. fst (fst (Run env cfg endorsement mediaType tr)) = Some j \<and> Status j = APIStatusSuccess))"
    by auto
  from poll have p1: "(fst (fst (pollForSubmissionCompletion env cfg uri tr)) \<noteq> None \<longleftrightarrow>
      snd (fst (pollForSubmissionCompletion env cfg uri tr)) = None)"
    and p2: "(snd (fst (pollForSubmissionCompletion env cfg uri tr)) = None \<longrightarrow>
      (\<exists>j. fst (fst (pollForSubmissionCompletion env cfg uri tr)) = Some j \<and>
           Status j = APIStatusSuccess))"
    by auto
  from r1 r2 p1 p2 show ?thesis by blast
qed

theorem Run_result_exclusive_witness:
  "snd (fst (Run (sample_env 3 (Inr created_response) [still_processing, now_success] None)
               sample_cfg testEndorsement testEndorsementMediaType [])) = None \<and>
   (\<exists>j. fst (fst (Run (sample_env 3 (Inr created_response) [still_processing, now_success] None)
                    sample_cfg testEndorsement testEndorsementMediaType [])) = Some j \<and>
        Status j = APIStatusSuccess)"
proof -
  let ?run = "Run (sample_env 3 (Inr created_response) [still_processing, now_success] None)
               sample_cfg testEndorsement testEndorsementMediaType []"
  have h: "snd (fst ?run) = None"
    by (simp add: sample_Run_async)
  from Run_result_exclusive [of "sample_env 3 (Inr created_response) [still_processing, now_success] None"
         sample_cfg testEndorsement testEndorsementMediaType "[]", THEN conjunct2, THEN conjunct1, THEN mp, OF h] h
  show ?thesis by blast
qed

section \<open>The receiver is a copy\<close>

lemma Run_in_store_Run:
  "Run_in_store env endorsement mediaType st tr =
     (fst (Run env (st CallerVar) endorsement mediaType tr),
      st(ReceiverVar := (if check (st CallerVar) = None then fst (initClient env (st CallerVar) tr)
                         else st CallerVar)),
      snd (Run env (st CallerVar) endorsement mediaType tr))"
proof (cases "check (st CallerVar)")
  case (Some err)
  then show ?thesis
    by (simp add: Run_in_store_def Run_def)
next
  case None
  obtain cfg e tr1 where init: "initClient env (st CallerVar) tr = (cfg, e, tr1)"
    by (cases "initClient env (st CallerVar) tr") auto
  show ?thesis
  proof (cases e)
    case (Some err)
    with None init show ?thesis
      by (simp add: Run_in_store_def Run_def initClient_at_def)
  next
    case e: None
    from init e initClient_Client [of env "st CallerVar" tr cfg tr1]
    obtain c where c: "Client cfg = Some c" by auto
    note i = init [unfolded e]
    show ?thesis
    proof (cases "PostResource env tr1 c endorsement mediaType sessionMediaType (SubmitURI cfg)")
      case (Inl err)
      with None i c show ?thesis
        by (simp add: Run_in_store_def Run_def initClient_at_def Let_def)
    next
      case (Inr res)
      show ?thesis
      proof (cases "sessionFromResponse env res")
        case (Inl err)
        with None i c Inr show ?thesis
          by (simp add: Run_in_store_def Run_def initClient_at_def Let_def)
      next
        case j: (Inr j)
        show ?thesis
        proof (cases "ExtractLocation env res (SubmitURI cfg)")
          case (Inl err)
          with None i c Inr j show ?thesis
            by (simp add: Run_in_store_def Run_def initClient_at_def Let_def)
        next
          case u: (Inr u)
          obtain r tr3 where "pollForSubmissionCompletion env cfg u
              (tr1 @ [EvPost c (SubmitURI cfg) endorsement mediaType sessionMediaType]) = (r, tr3)"
            by (cases "pollForSubmissionCompletion env cfg u
              (tr1 @ [EvPost c (SubmitURI cfg) endorsement mediaType sessionMediaType])") auto
          with None i c Inr j u show ?thesis
            by (simp add: Run_in_store_def Run_def initClient_at_def Let_def)
        qed
      qed
    qed
  qed
qed

lemma initClient_any_history:
  "Client cfg0 = None \<Longrightarrow> initClient env cfg0 tr = (cfg, None, tr1) \<Longrightarrow>
     \<exists>c. Client cfg = Some c \<and> tr1 = tr @ [EvNewClient c] \<and>
         (\<forall>tr'. initClient env cfg0 tr' = (cfg, None, tr' @ [EvNewClient c]))"
  by (auto simp: initClient_def Let_def split: if_splits sum.splits)

lemma Run_events_via:
  assumes "check cfg0 = None" "initClient env cfg0 tr = (cfg, None, tr1)" "Client cfg = Some c"
  shows "\<exists>rest. snd (Run env cfg0 endorsement mediaType tr) =
            tr1 @ EvPost c (SubmitURI cfg) endorsement mediaType sessionMediaType # rest \<and>
          list_all (via c) rest"
proof (cases rule: Run_cases [of cfg0 env endorsement mediaType tr])
  case (invalid err)
  with assms show ?thesis by simp
next
  case (no_client cfg' err)
  with assms show ?thesis by simp
next
  case (early cfg' tr1' c' err)
  with assms have "cfg' = cfg" "tr1' = tr1" "c' = c" by simp_all
  with early(4) have "snd (Run env cfg0 endorsement mediaType tr) =
      tr1 @ EvPost c (SubmitURI cfg) endorsement mediaType sessionMediaType # [] \<and>
      list_all (via c) []"
    by simp
  then show ?thesis by blast
next
  case (sync cfg' tr1' c' j)
  with assms have "cfg' = cfg" "tr1' = tr1" "c' = c" by simp_all
  with sync(5) have "snd (Run env cfg0 endorsement mediaType tr) =
      tr1 @ EvPost c (SubmitURI cfg) endorsement mediaType sessionMediaType # [] \<and>
      list_all (via c) []"
    by simp
  then show ?thesis by blast
next
  case (async cfg' tr1' c' res j sessionURI r tr3)
  with assms have eq: "cfg' = cfg" "tr1' = tr1" "c' = c" by simp_all
  let ?post = "EvPost c (SubmitURI cfg) endorsement mediaType sessionMediaType"
  let ?dels = "if DeleteSession cfg
               then EvDelete c sessionURI #
                    (case DeleteResource env tr3 c sessionURI of
                       None \<Rightarrow> [] | Some delErr \<Rightarrow> [EvLog sessionURI delErr])
               else []"
  from pollForSubmissionCompletion_trace [OF assms(3), of env sessionURI "tr1 @ [?post]"] async(9) eq
  obtain ext where ext: "tr3 = (tr1 @ [?post]) @ ext" "set ext \<subseteq> {EvGet (HTTPClient c) sessionURI, EvSleep}"
    by auto
  from ext(2) have v: "list_all (via c) ext"
    by (auto simp: list_all_iff)
  have d: "list_all (via c) ?dels"
    by (simp split: option.splits)
  from async(10) eq ext(1) have "snd (Run env cfg0 endorsement mediaType tr) = tr1 @ ?post # (ext @ ?dels)"
    by simp
  moreover from v d have "list_all (via c) (ext @ ?dels)"
    by simp
  ultimately show ?thesis by blast
qed

lemma poll_loop_first_get:
  assumes "1 < MaxAttempts env"
  shows "\<exists>rest. snd (poll_loop env client uri 1 tr) = tr @ EvGet client uri # rest"
proof -
  from poll_body_cases [of env client uri tr] show ?thesis
  proof
    assume c: "poll_body env client uri tr = (Continue, tr @ [EvGet client uri, EvSleep])"
    from poll_loop_trace [of env client uri "1 + 1" "tr @ [EvGet client uri, EvSleep]"]
    obtain ext where "snd (poll_loop env client uri (1 + 1) (tr @ [EvGet client uri, EvSleep])) =
        (tr @ [EvGet client uri, EvSleep]) @ ext" by blast
    with assms c have "snd (poll_loop env client uri 1 tr) = tr @ EvGet client uri # (EvSleep # ext)"
      by (simp add: poll_loop_step)
    then show ?thesis by blast
  next
    assume "\<exists>r. poll_body env client uri tr = (Return r, tr @ [EvGet client uri])"
    then obtain r where "poll_body env client uri tr = (Return r, tr @ [EvGet client uri])" ..
    with assms have "snd (poll_loop env client uri 1 tr) = tr @ EvGet client uri # []"
      by (simp add: poll_loop_step)
    then show ?thesis by blast
  qed
qed

lemma sample_poll_loop_0:
  assumes "gets tr = 0"
  shows "poll_loop (sample_env 3 p [still_processing, now_success, now_success] d) h u 1 tr =
     ((Some \<lparr>Status = ''success'', Expiry = ''2030-10-12T07:20:50.52Z'', FailureReason = None\<rparr>, None),
      tr @ [EvGet h u, EvSleep, EvGet h u])"
proof -
  let ?e = "sample_env 3 p [still_processing, now_success, now_success] d"
  have m: "(1::int) < MaxAttempts ?e" "(2::int) < MaxAttempts ?e"
    by (simp_all add: sample_env_def)
  have b1: "poll_body ?e h u tr = (Continue, tr @ [EvGet h u, EvSleep])"
    using assms
    by (intro poll_body_processing)
       (simp add: sample_Get polled_status_def sample_polled_record status_defs)
  have "gets (tr @ [EvGet h u, EvSleep]) = 1"
    using assms by (simp add: gets_def)
  then have b2: "poll_body ?e h u (tr @ [EvGet h u, EvSleep]) =
      (Return (Some \<lparr>Status = ''success'', Expiry = ''2030-10-12T07:20:50.52Z'', FailureReason = None\<rparr>, None),
       (tr @ [EvGet h u, EvSleep]) @ [EvGet h u])"
    by (intro poll_body_success)
       (simp_all add: sample_Get sample_polled_record status_defs)
  show ?thesis
    using m b1 b2 by (simp add: poll_loop_step)
qed

lemma sample_poll_loop_2:
  assumes "gets tr = 2"
  shows "poll_loop (sample_env 3 p [still_processing, now_success, now_success] d) h u 1 tr =
     ((Some \<lparr>Status = ''success'', Expiry = ''2030-10-12T07:20:50.52Z'', FailureReason = None\<rparr>, None),
      tr @ [EvGet h u])"
proof -
  let ?e = "sample_env 3 p [still_processing, now_success, now_success] d"
  have m: "(1::int) < MaxAttempts ?e"
    by (simp add: sample_env_def)
  have b: "poll_body ?e h u tr =
      (Return (Some \<lparr>Status = ''success'', Expiry = ''2030-10-12T07:20:50.52Z'', FailureReason = None\<rparr>, None),
       tr @ [EvGet h u])"
    using assms
    by (intro poll_body_success)
       (simp_all add: sample_Get sample_polled_record status_defs)
  show ?thesis
    using m b by (simp add: poll_loop_step)
qed

text \<open>
  C10. \<^verbatim>\<open>Run\<close> works on a copy of the configuration: after every call the caller's
  variable holds the configuration it held before. When that configuration has no client
  and \<^verbatim>\<open>initClient\<close> builds one, the client is written to the receiver, not to the caller's
  variable, and the call uses it: the events of the call start with the building of the
  client and the POST through it, and no later request goes through another client; when
  the POST is answered with 201, status \<^verbatim>\<open>processing\<close> and a follow-up URI, the result and
  the events are those of the poll loop on the HTTP client of that client (with a first
  GET through it when the budget allows one), followed, if \<^verbatim>\<open>DeleteSession\<close> is set, by
  the DELETE through the client. A later \<^verbatim>\<open>Run\<close> on the store and after the events that
  the call left builds the client again and sends its POST through it.
\<close>

theorem Run_by_value:
  "fst (snd (Run_in_store env endorsement mediaType st tr)) CallerVar = st CallerVar \<and>
   (\<forall>cfg tr1. Client (st CallerVar) = None \<and> check (st CallerVar) = None \<and>
        initClient env (st CallerVar) tr = (cfg, None, tr1) \<longrightarrow>
      (\<exists>c. Client cfg = Some c \<and>
          fst (snd (Run_in_store env endorsement mediaType st tr)) ReceiverVar = cfg \<and>
          (\<exists>rest. snd (snd (Run_in_store env endorsement mediaType st tr)) =
               tr @ EvNewClient c #
                 EvPost c (SubmitURI (st CallerVar)) endorsement mediaType sessionMediaType # rest \<and>
             list_all (via c) rest) \<and>
          (\<forall>res j u.
             PostResource env (tr @ [EvNewClient c]) c endorsement mediaType sessionMediaType
               (SubmitURI (st CallerVar)) = Inr res \<and>
             StatusCode res = 201 \<and> sessionFromResponse env res = Inr j \<and>
             Status j = APIStatusProcessing \<and>
             ExtractLocation env res (SubmitURI (st CallerVar)) = Inr u \<longrightarrow>
             (\<exists>r tr3.
                poll_loop env (HTTPClient c) u 1
                  (tr @ [EvNewClient c,
                         EvPost c (SubmitURI (st CallerVar)) endorsement mediaType sessionMediaType]) =
                  (r, tr3) \<and>
                fst (Run_in_store env endorsement mediaType st tr) = r \<and>
                snd (snd (Run_in_store env endorsement mediaType st tr)) =
                  tr3 @ (if DeleteSession (st CallerVar)
                         then EvDelete c u #
                              (case DeleteResource env tr3 c u of
                                 None \<Rightarrow> []
                               | Some delErr \<Rightarrow> [EvLog u delErr])
                         else []) \<and>
                (1 < MaxAttempts env \<longrightarrow>
                   (\<exists>rest. tr3 =
                      tr @ EvNewClient c #
                        EvPost c (SubmitURI (st CallerVar)) endorsement mediaType sessionMediaType #
                        EvGet (HTTPClient c) u # rest)))) \<and>
          (\<forall>endorsement' mediaType'. \<exists>rest'.
             snd (snd (Run_in_store env endorsement' mediaType'
                         (fst (snd (Run_in_store env endorsement mediaType st tr)))
                         (snd (snd (Run_in_store env endorsement mediaType st tr))))) =
               snd (snd (Run_in_store env endorsement mediaType st tr)) @
                 EvNewClient c #
                 EvPost c (SubmitURI (st CallerVar)) endorsement' mediaType' sessionMediaType # rest' \<and>
             list_all (via c) rest')))"
proof (intro conjI allI impI)
  show "fst (snd (Run_in_store env endorsement mediaType st tr)) CallerVar = st CallerVar"
    by (simp add: Run_in_store_Run)
next
  fix cfg tr1
  assume h: "Client (st CallerVar) = None \<and> check (st CallerVar) = None \<and>
        initClient env (st CallerVar) tr = (cfg, None, tr1)"
  let ?R = "Run_in_store env endorsement mediaType st tr"
  let ?uri = "SubmitURI (st CallerVar)"
  from h have chk: "check (st CallerVar) = None"
    and init: "initClient env (st CallerVar) tr = (cfg, None, tr1)" by simp_all
  from h initClient_any_history [of "st CallerVar" env tr cfg tr1]
  obtain c where c: "Client cfg = Some c" "tr1 = tr @ [EvNewClient c]"
    and any: "\<And>tr'. initClient env (st CallerVar) tr' = (cfg, None, tr' @ [EvNewClient c])"
    by blast
  from initClient_fields [OF init] have f: "SubmitURI cfg = ?uri" "DeleteSession cfg = DeleteSession (st CallerVar)"
    by simp_all
  have store: "fst (snd ?R) = st(ReceiverVar := cfg)"
    using chk init by (simp add: Run_in_store_Run)
  have trace: "snd (snd ?R) = snd (Run env (st CallerVar) endorsement mediaType tr)"
    by (simp add: Run_in_store_Run)
  have res: "fst ?R = fst (Run env (st CallerVar) endorsement mediaType tr)"
    by (simp add: Run_in_store_Run)
  \<comment> \<open>the receiver holds the client\<close>
  have a: "fst (snd ?R) ReceiverVar = cfg"
    by (simp add: store)
  \<comment> \<open>the POST goes through it\<close>
  from Run_events_via [OF chk init c(1), of endorsement mediaType]
  obtain rest where "snd (Run env (st CallerVar) endorsement mediaType tr) =
      tr1 @ EvPost c (SubmitURI cfg) endorsement mediaType sessionMediaType # rest"
    "list_all (via c) rest" by blast
  with c(2) f trace
  have b: "\<exists>rest. snd (snd ?R) = tr @ EvNewClient c # EvPost c ?uri endorsement mediaType sessionMediaType # rest \<and>
       list_all (via c) rest"
    by simp
  \<comment> \<open>the poll and the clean-up go through it\<close>
  have p: "\<forall>res j u.
             PostResource env (tr @ [EvNewClient c]) c endorsement mediaType sessionMediaType ?uri = Inr res \<and>
             StatusCode res = 201 \<and> sessionFromResponse env res = Inr j \<and>
             Status j = APIStatusProcessing \<and>
             ExtractLocation env res ?uri = Inr u \<longrightarrow>
             (\<exists>r tr3.
                poll_loop env (HTTPClient c) u 1
                  (tr @ [EvNewClient c, EvPost c ?uri endorsement mediaType sessionMediaType]) = (r, tr3) \<and>
                fst ?R = r \<and>
                snd (snd ?R) =
                  tr3 @ (if DeleteSession (st CallerVar)
                         then EvDelete c u #
                              (case DeleteResource env tr3 c u of
                                 None \<Rightarrow> []
                               | Some delErr \<Rightarrow> [EvLog u delErr])
                         else []) \<and>
                (1 < MaxAttempts env \<longrightarrow>
                   (\<exists>rest. tr3 =
                      tr @ EvNewClient c # EvPost c ?uri endorsement mediaType sessionMediaType #
                        EvGet (HTTPClient c) u # rest)))"
  proof (intro allI impI)
    fix res j u
    assume q: "PostResource env (tr @ [EvNewClient c]) c endorsement mediaType sessionMediaType ?uri = Inr res \<and>
             StatusCode res = 201 \<and> sessionFromResponse env res = Inr j \<and>
             Status j = APIStatusProcessing \<and>
             ExtractLocation env res ?uri = Inr u"
    let ?tr2 = "tr @ [EvNewClient c, EvPost c ?uri endorsement mediaType sessionMediaType]"
    obtain r tr3 where pl: "poll_loop env (HTTPClient c) u 1 ?tr2 = (r, tr3)"
      by (cases "poll_loop env (HTTPClient c) u 1 ?tr2") auto
    from q c(2) f have post: "PostResource env tr1 c endorsement mediaType sessionMediaType (SubmitURI cfg) = Inr res"
      by simp
    from q have dec: "sessionFromResponse env res = Inr j" by simp
    from pl c(1) c(2) f have poll: "pollForSubmissionCompletion env cfg u
        (tr1 @ [EvPost c (SubmitURI cfg) endorsement mediaType sessionMediaType]) = (r, tr3)"
      by (simp add: pollForSubmissionCompletion_def)
    from Run_after_post [OF chk init c(1) post dec] q f poll
    have run: "Run env (st CallerVar) endorsement mediaType tr =
        (r, tr3 @ (if DeleteSession (st CallerVar)
                   then EvDelete c u #
                        (case DeleteResource env tr3 c u of
                           None \<Rightarrow> []
                         | Some delErr \<Rightarrow> [EvLog u delErr])
                   else []))"
      by (simp split: option.splits)
    have first: "1 < MaxAttempts env \<longrightarrow>
        (\<exists>rest. tr3 = tr @ EvNewClient c # EvPost c ?uri endorsement mediaType sessionMediaType #
                         EvGet (HTTPClient c) u # rest)"
    proof
      assume "1 < MaxAttempts env"
      from poll_loop_first_get [OF this, of "HTTPClient c" u ?tr2] pl
      show "\<exists>rest. tr3 = tr @ EvNewClient c # EvPost c ?uri endorsement mediaType sessionMediaType #
                         EvGet (HTTPClient c) u # rest"
        by simp
    qed
    from pl run res trace first
    show "\<exists>r tr3.
                poll_loop env (HTTPClient c) u 1 ?tr2 = (r, tr3) \<and>
                fst ?R = r \<and>
                snd (snd ?R) =
                  tr3 @ (if DeleteSession (st CallerVar)
                         then EvDelete c u #
                              (case DeleteResource env tr3 c u of
                                 None \<Rightarrow> []
                               | Some delErr \<Rightarrow> [EvLog u delErr])
                         else []) \<and>
                (1 < MaxAttempts env \<longrightarrow>
                   (\<exists>rest. tr3 =
                      tr @ EvNewClient c # EvPost c ?uri endorsement mediaType sessionMediaType #
                        EvGet (HTTPClient c) u # rest))"
      by simp
  qed
  \<comment> \<open>a later call builds the client again\<close>
  have l: "\<forall>endorsement' mediaType'. \<exists>rest'.
             snd (snd (Run_in_store env endorsement' mediaType' (fst (snd ?R)) (snd (snd ?R)))) =
               snd (snd ?R) @ EvNewClient c # EvPost c ?uri endorsement' mediaType' sessionMediaType # rest' \<and>
             list_all (via c) rest'"
  proof (intro allI)
    fix endorsement' mediaType'
    from Run_events_via [OF chk any c(1), of endorsement' mediaType' "snd (snd ?R)"]
    obtain rest' where "snd (Run env (st CallerVar) endorsement' mediaType' (snd (snd ?R))) =
        (snd (snd ?R) @ [EvNewClient c]) @ EvPost c (SubmitURI cfg) endorsement' mediaType' sessionMediaType # rest'"
      "list_all (via c) rest'" by blast
    with f store
    show "\<exists>rest'.
             snd (snd (Run_in_store env endorsement' mediaType' (fst (snd ?R)) (snd (snd ?R)))) =
               snd (snd ?R) @ EvNewClient c # EvPost c ?uri endorsement' mediaType' sessionMediaType # rest' \<and>
             list_all (via c) rest'"
      by (simp add: Run_in_store_Run [of env endorsement' mediaType'])
  qed
  from c(1) a b p l
  show "\<exists>c. Client cfg = Some c \<and>
          fst (snd ?R) ReceiverVar = cfg \<and>
          (\<exists>rest. snd (snd ?R) =
               tr @ EvNewClient c # EvPost c ?uri endorsement mediaType sessionMediaType # rest \<and>
             list_all (via c) rest) \<and>
          (\<forall>res j u.
             PostResource env (tr @ [EvNewClient c]) c endorsement mediaType sessionMediaType ?uri = Inr res \<and>
             StatusCode res = 201 \<and> sessionFromResponse env res = Inr j \<and>
             Status j = APIStatusProcessing \<and>
             ExtractLocation env res ?uri = Inr u \<longrightarrow>
             (\<exists>r tr3.
                poll_loop env (HTTPClient c) u 1
                  (tr @ [EvNewClient c, EvPost c ?uri endorsement mediaType sessionMediaType]) = (r, tr3) \<and>
                fst ?R = r \<and>
                snd (snd ?R) =
                  tr3 @ (if DeleteSession (st CallerVar)
                         then EvDelete c u #
                              (case DeleteResource env tr3 c u of
                                 None \<Rightarrow> []
                               | Some delErr \<Rightarrow> [EvLog u delErr])
                         else []) \<and>
                (1 < MaxAttempts env \<longrightarrow>
                   (\<exists>rest. tr3 =
                      tr @ EvNewClient c # EvPost c ?uri endorsement mediaType sessionMediaType #
                        EvGet (HTTPClient c) u # rest)))) \<and>
          (\<forall>endorsement' mediaType'. \<exists>rest'.
             snd (snd (Run_in_store env endorsement' mediaType' (fst (snd ?R)) (snd (snd ?R)))) =
               snd (snd ?R) @ EvNewClient c # EvPost c ?uri endorsement' mediaType' sessionMediaType # rest' \<and>
             list_all (via c) rest')"
    by blast
qed


theorem Run_by_value_witness:
  "fst (snd (Run_in_store (sample_env 3 (Inr created_response) [still_processing, now_success, now_success] None)
               testEndorsement testEndorsementMediaType sample_store [])) CallerVar =
     sample_store CallerVar \<and>
   Client (fst (snd (Run_in_store (sample_env 3 (Inr created_response) [still_processing, now_success, now_success] None)
               testEndorsement testEndorsementMediaType sample_store [])) CallerVar) = None \<and>
   Client (fst (snd (Run_in_store (sample_env 3 (Inr created_response) [still_processing, now_success, now_success] None)
               testEndorsement testEndorsementMediaType sample_store [])) ReceiverVar) = Some plainClient \<and>
   fst (Run_in_store (sample_env 3 (Inr created_response) [still_processing, now_success, now_success] None)
          testEndorsement testEndorsementMediaType sample_store []) =
     (Some \<lparr>Status = ''success'', Expiry = ''2030-10-12T07:20:50.52Z'', FailureReason = None\<rparr>, None) \<and>
   snd (snd (Run_in_store (sample_env 3 (Inr created_response) [still_processing, now_success, now_success] None)
               testEndorsement testEndorsementMediaType sample_store [])) =
     [EvNewClient plainClient,
      EvPost plainClient testSubmitURI testEndorsement testEndorsementMediaType sessionMediaType,
      EvGet ''plain'' testSessionURI, EvSleep, EvGet ''plain'' testSessionURI,
      EvDelete plainClient testSessionURI] \<and>
   snd (snd (Run_in_store (sample_env 3 (Inr created_response) [still_processing, now_success, now_success] None)
               testEndorsement testEndorsementMediaType
               (fst (snd (Run_in_store (sample_env 3 (Inr created_response) [still_processing, now_success, now_success] None)
                            testEndorsement testEndorsementMediaType sample_store [])))
               [EvNewClient plainClient,
                EvPost plainClient testSubmitURI testEndorsement testEndorsementMediaType sessionMediaType,
                EvGet ''plain'' testSessionURI, EvSleep, EvGet ''plain'' testSessionURI,
                EvDelete plainClient testSessionURI])) =
     [EvNewClient plainClient,
      EvPost plainClient testSubmitURI testEndorsement testEndorsementMediaType sessionMediaType,
      EvGet ''plain'' testSessionURI, EvSleep, EvGet ''plain'' testSessionURI,
      EvDelete plainClient testSessionURI,
      EvNewClient plainClient,
      EvPost plainClient testSubmitURI testEndorsement testEndorsementMediaType sessionMediaType,
      EvGet ''plain'' testSessionURI,
      EvDelete plainClient testSessionURI]"
proof -
  let ?E = "sample_env 3 (Inr created_response) [still_processing, now_success, now_success] None"
  let ?R = "Run_in_store ?E testEndorsement testEndorsementMediaType sample_store []"
  let ?cfg = "(sample_store CallerVar)\<lparr>Client := Some plainClient\<rparr>"
  let ?j = "\<lparr>Status = ''processing'', Expiry = ''2030-10-12T07:20:50.52Z'', FailureReason = None\<rparr>"
  let ?post = "EvPost plainClient testSubmitURI testEndorsement testEndorsementMediaType sessionMediaType"
  let ?T1 = "[EvNewClient plainClient, ?post,
      EvGet ''plain'' testSessionURI, EvSleep, EvGet ''plain'' testSessionURI,
      EvDelete plainClient testSessionURI]"
  have u: "SubmitURI (sample_store CallerVar) = testSubmitURI" "DeleteSession (sample_store CallerVar)"
    "Client (sample_store CallerVar) = None"
    by (simp_all add: sample_store_def zero_cfg_def)
  have hc: "HTTPClient plainClient = ''plain''"
    by (simp add: plainClient_def)
  have init: "initClient ?E (sample_store CallerVar) tr = (?cfg, None, tr @ [EvNewClient plainClient])" for tr
    by (simp add: initClient_def sample_store_def zero_cfg_def sample_env_def Let_def plainClient_def)
  have chk: "check (sample_store CallerVar) = None"
    by (simp add: check_def u testSubmitURI_def)
  have q: "PostResource ?E (tr @ [EvNewClient plainClient]) plainClient testEndorsement testEndorsementMediaType
              sessionMediaType (SubmitURI (sample_store CallerVar)) = Inr created_response \<and>
      StatusCode created_response = 201 \<and> sessionFromResponse ?E created_response = Inr ?j \<and>
      Status ?j = APIStatusProcessing \<and>
      ExtractLocation ?E created_response (SubmitURI (sample_store CallerVar)) = Inr testSessionURI" for tr
    by (simp add: sample_sessionFromResponse status_defs)
       (simp add: sample_env_def created_response_def sample_ExtractLocation_def)
  have del: "DeleteResource ?E tr c uri = None" for tr c uri
    by (simp add: sample_env_def)
  \<comment> \<open>the first call\<close>
  note T = Run_by_value [of ?E testEndorsement testEndorsementMediaType sample_store "[]"]
  have h: "Client (sample_store CallerVar) = None \<and> check (sample_store CallerVar) = None \<and>
      initClient ?E (sample_store CallerVar) [] = (?cfg, None, [] @ [EvNewClient plainClient])"
    using u(3) chk init by simp
  from T [THEN conjunct2, rule_format, OF h]
  obtain c where c: "Client ?cfg = Some c" and r: "fst (snd ?R) ReceiverVar = ?cfg"
    and p: "\<And>res j u.
       PostResource ?E ([] @ [EvNewClient c]) c testEndorsement testEndorsementMediaType sessionMediaType
         (SubmitURI (sample_store CallerVar)) = Inr res \<and>
       StatusCode res = 201 \<and> sessionFromResponse ?E res = Inr j \<and>
       Status j = APIStatusProcessing \<and>
       ExtractLocation ?E res (SubmitURI (sample_store CallerVar)) = Inr u \<Longrightarrow>
       \<exists>r tr3.
          poll_loop ?E (HTTPClient c) u 1
            ([] @ [EvNewClient c,
                   EvPost c (SubmitURI (sample_store CallerVar)) testEndorsement testEndorsementMediaType
                     sessionMediaType]) = (r, tr3) \<and>
          fst ?R = r \<and>
          snd (snd ?R) =
            tr3 @ (if DeleteSession (sample_store CallerVar)
                   then EvDelete c u #
                        (case DeleteResource ?E tr3 c u of None \<Rightarrow> [] | Some delErr \<Rightarrow> [EvLog u delErr])
                   else [])"
    by blast
  from c have ceq: "c = plainClient" by simp
  from p [of created_response ?j testSessionURI] q [of "[]"]
  obtain r1 tr3 where
    pl: "poll_loop ?E ''plain'' testSessionURI 1 [EvNewClient plainClient, ?post] = (r1, tr3)"
    and r1: "fst ?R = r1"
    and t1: "snd (snd ?R) = tr3 @ [EvDelete plainClient testSessionURI]"
    unfolding ceq by (auto simp: u hc del)
  from pl sample_poll_loop_0 [of "[EvNewClient plainClient, ?post]" "Inr created_response" None "''plain''" testSessionURI]
  have "r1 = (Some \<lparr>Status = ''success'', Expiry = ''2030-10-12T07:20:50.52Z'', FailureReason = None\<rparr>, None)"
    and "tr3 = [EvNewClient plainClient, ?post, EvGet ''plain'' testSessionURI, EvSleep,
                EvGet ''plain'' testSessionURI]"
    by (simp_all add: gets_def)
  with r1 t1 have first: "fst ?R = (Some \<lparr>Status = ''success'', Expiry = ''2030-10-12T07:20:50.52Z'',
        FailureReason = None\<rparr>, None)" "snd (snd ?R) = ?T1"
    by simp_all
  have keep: "fst (snd ?R) CallerVar = sample_store CallerVar"
    by (rule T [THEN conjunct1])
  \<comment> \<open>a second call, on the store and after the events that the first call left\<close>
  let ?S1 = "fst (snd ?R)"
  let ?R2 = "Run_in_store ?E testEndorsement testEndorsementMediaType ?S1 ?T1"
  note T2 = Run_by_value [of ?E testEndorsement testEndorsementMediaType ?S1 ?T1]
  have h2: "Client (?S1 CallerVar) = None \<and> check (?S1 CallerVar) = None \<and>
      initClient ?E (?S1 CallerVar) ?T1 = (?cfg, None, ?T1 @ [EvNewClient plainClient])"
    unfolding keep using u(3) chk init by simp
  from T2 [THEN conjunct2, rule_format, OF h2]
  obtain c2 where c2: "Client ?cfg = Some c2"
    and p2: "\<And>res j u.
       PostResource ?E (?T1 @ [EvNewClient c2]) c2 testEndorsement testEndorsementMediaType sessionMediaType
         (SubmitURI (?S1 CallerVar)) = Inr res \<and>
       StatusCode res = 201 \<and> sessionFromResponse ?E res = Inr j \<and>
       Status j = APIStatusProcessing \<and>
       ExtractLocation ?E res (SubmitURI (?S1 CallerVar)) = Inr u \<Longrightarrow>
       \<exists>r tr3.
          poll_loop ?E (HTTPClient c2) u 1
            (?T1 @ [EvNewClient c2,
                   EvPost c2 (SubmitURI (?S1 CallerVar)) testEndorsement testEndorsementMediaType
                     sessionMediaType]) = (r, tr3) \<and>
          fst ?R2 = r \<and>
          snd (snd ?R2) =
            tr3 @ (if DeleteSession (?S1 CallerVar)
                   then EvDelete c2 u #
                        (case DeleteResource ?E tr3 c2 u of None \<Rightarrow> [] | Some delErr \<Rightarrow> [EvLog u delErr])
                   else [])"
    by blast
  from c2 have c2eq: "c2 = plainClient" by simp
  from p2 [of created_response ?j testSessionURI] q [of ?T1]
  obtain r2 tr4 where
    pl2: "poll_loop ?E ''plain'' testSessionURI 1 (?T1 @ [EvNewClient plainClient, ?post]) = (r2, tr4)"
    and t2: "snd (snd ?R2) = tr4 @ [EvDelete plainClient testSessionURI]"
    unfolding c2eq keep by (auto simp: u hc del)
  from pl2 sample_poll_loop_2 [of "?T1 @ [EvNewClient plainClient, ?post]" "Inr created_response" None
      "''plain''" testSessionURI]
  have "tr4 = ?T1 @ [EvNewClient plainClient, ?post, EvGet ''plain'' testSessionURI]"
    by (simp add: gets_def)
  with t2 have second: "snd (snd ?R2) =
      ?T1 @ [EvNewClient plainClient, ?post, EvGet ''plain'' testSessionURI,
             EvDelete plainClient testSessionURI]"
    by simp
  from keep u(3) have none: "Client (fst (snd ?R) CallerVar) = None" by simp
  from r have some: "Client (fst (snd ?R) ReceiverVar) = Some plainClient" by simp
  from keep none some first second show ?thesis by simp
qed

end
